theory Spec2Isabelle
  imports Main
begin

section \<open>AWSAppSyncRealTimeProvider: data model\<close>

text \<open>
  The provider of \<^verbatim>\<open>packages/pubsub/src/Providers/AWSAppSyncRealTimeProvider.ts\<close>
  multiplexes GraphQL subscriptions over one WebSocket. Its methods are embedded as
  functions on an explicit provider state. An \<^verbatim>\<open>async\<close> method is cut at its
  \<^verbatim>\<open>await\<close>s: one function per run-to-completion segment, the awaited outcome being
  an argument of the next segment, so that other handlers can run in between as they do
  on the JavaScript event loop.
\<close>

subsection \<open>Constants and enumerations\<close>

definition MAX_DELAY_MS :: nat where
  "MAX_DELAY_MS = 5000"

definition NON_RETRYABLE_CODES :: "int list" where
  "NON_RETRYABLE_CODES = [400, 401, 403]"

definition CONNECTION_INIT_TIMEOUT :: nat where
  "CONNECTION_INIT_TIMEOUT = 15000"

definition START_ACK_TIMEOUT :: nat where
  "START_ACK_TIMEOUT = 15000"

definition DEFAULT_KEEP_ALIVE_TIMEOUT :: nat where
  "DEFAULT_KEEP_ALIVE_TIMEOUT = 5 * 60 * 1000"

datatype MESSAGE_TYPES =
    GQL_CONNECTION_INIT | GQL_CONNECTION_ERROR | GQL_CONNECTION_ACK | GQL_START
  | GQL_START_ACK | GQL_DATA | GQL_CONNECTION_KEEP_ALIVE | GQL_STOP | GQL_COMPLETE
  | GQL_ERROR

text \<open>The string value of each member of the enum, as it stands on the wire.\<close>

fun wire :: "MESSAGE_TYPES \<Rightarrow> string" where
  "wire GQL_CONNECTION_INIT = ''connection_init''"
| "wire GQL_CONNECTION_ERROR = ''connection_error''"
| "wire GQL_CONNECTION_ACK = ''connection_ack''"
| "wire GQL_START = ''start''"
| "wire GQL_START_ACK = ''start_ack''"
| "wire GQL_DATA = ''data''"
| "wire GQL_CONNECTION_KEEP_ALIVE = ''ka''"
| "wire GQL_STOP = ''stop''"
| "wire GQL_COMPLETE = ''complete''"
| "wire GQL_ERROR = ''error''"

datatype SUBSCRIPTION_STATUS = PENDING | CONNECTED | FAILED

datatype SOCKET_STATUS = CLOSED | READY | CONNECTING

text \<open>
  \<^verbatim>\<open>GraphqlAuthModes = keyof typeof GRAPHQL_AUTH_MODE\<close>: the keys of the handler table
  of \<^verbatim>\<open>_awsRealTimeHeaderBasedAuth\<close>. The option \<^verbatim>\<open>authenticationType?\<close> is optional,
  so the value a request carries is one of the five or absent.
\<close>

datatype GraphqlAuthModes =
  API_KEY | AWS_IAM | OPENID_CONNECT | AMAZON_COGNITO_USER_POOLS | AWS_LAMBDA

text \<open>
  \<^verbatim>\<open>CONTROL_MSG\<close> is imported from the package index; only the member names used by the
  provider are needed.
\<close>

datatype CONTROL_MSG =
    CONNECTION_CLOSED | CONNECTION_FAILED | REALTIME_SUBSCRIPTION_INIT_ERROR
  | SUBSCRIPTION_ACK | TIMEOUT_DISCONNECT

subsection \<open>JavaScript values\<close>

datatype json =
  JNull | JBool bool | JNum int | JStr string | JArr "json list" | JObj "(string \<times> json) list"

text \<open>Truthiness of a parsed JSON value; \<open>None\<close> is \<^verbatim>\<open>undefined\<close>.\<close>

fun truthy :: "json option \<Rightarrow> bool" where
  "truthy None = False"
| "truthy (Some JNull) = False"
| "truthy (Some (JBool b)) = b"
| "truthy (Some (JNum n)) = (n \<noteq> 0)"
| "truthy (Some (JStr s)) = (s \<noteq> [])"
| "truthy (Some (JArr xs)) = True"
| "truthy (Some (JObj kvs)) = True"

text \<open>Property access \<^verbatim>\<open>v.k\<close> on a truthy value: only an object has own properties.\<close>

fun get_prop :: "json option \<Rightarrow> string \<Rightarrow> json option" where
  "get_prop (Some (JObj kvs)) k = map_of kvs k"
| "get_prop v k = None"

text \<open>
  Values that are thrown or passed to a promise's reject: an \<^verbatim>\<open>Error\<close> with its
  message, the object \<^verbatim>\<open>{ errorType, errorCode }\<close> of a connection error, and the
  \<^verbatim>\<open>NonRetryableError\<close> of the core package with its message.
\<close>

datatype js_err =
    JsError string
  | ConnectionErrorObj string int
  | NonRetryableError string

text \<open>\<^verbatim>\<open>err['message'] ?? ''\<close>\<close>

fun message_of :: "js_err \<Rightarrow> string" where
  "message_of (JsError m) = m"
| "message_of (ConnectionErrorObj ty code) = []"
| "message_of (NonRetryableError m) = m"

text \<open>
  The text of a \<^verbatim>\<open>GraphQLError\<close>, kept structured: a literal, a control message, a
  control message followed by a detail (\<^verbatim>\<open>`${CONTROL_MSG.X}: ${detail}`\<close>), or
  \<^verbatim>\<open>`Subscription timeout ${JSON.stringify({ query, variables })}`\<close>.
\<close>

datatype detail = DetailText string | DetailErr js_err | DetailJson "json option"

datatype err_text =
    PlainText string
  | ControlText CONTROL_MSG
  | ControlDetail CONTROL_MSG detail
  | SubscriptionTimeoutText string json

subsection \<open>Observers, promises, timers, sockets\<close>

text \<open>
  A \<^verbatim>\<open>SubscriptionObserver\<close> is the consumer's handle. The model keeps, per handle, the
  sequence of signals the consumer has received (\<^verbatim>\<open>next\<close>, \<^verbatim>\<open>error\<close> with its
  \<^verbatim>\<open>errors\<close> list, \<^verbatim>\<open>complete\<close>) and the \<^verbatim>\<open>closed\<close> flag the provider reads. The
  observer follows the Observable contract: a signal sent to a closed observer is
  dropped; the first \<^verbatim>\<open>error\<close> or \<^verbatim>\<open>complete\<close> is delivered and closes the
  observer, and the Observable then calls the teardown function the subscriber function
  returned; the consumer closes the observer when it unsubscribes.
\<close>

datatype signal = Next json | Error "err_text list" | Complete

record observer_st =
  closed :: bool
  signals :: "signal list"

text \<open>
  A promise is named by a number. The \<^verbatim>\<open>res\<close> and \<^verbatim>\<open>rej\<close> functions of promise
  \<open>p\<close> are both represented by \<open>p\<close>; calling one appends a settlement to the log
  \<open>settled\<close> (the first settlement of a promise is the one its awaiter sees).
\<close>

datatype settlement = Resolved | Rejected "js_err option"

datatype timer_action = StartAckTimeout string | KeepAliveTimeout | CloseSocketCheck

datatype out_message =
    ConnectionInit
  | Start string string "(string \<times> string option) list"
  | Stop string

datatype ready_state = WS_CONNECTING | WS_OPEN | WS_CLOSING | WS_CLOSED

text \<open>
  A \<^verbatim>\<open>WebSocket\<close>: its \<^verbatim>\<open>readyState\<close> and \<^verbatim>\<open>bufferedAmount\<close>, the messages
  passed to \<^verbatim>\<open>send\<close>, and the arguments of the calls of \<^verbatim>\<open>close\<close>.
\<close>

record socket =
  readyState :: ready_state
  bufferedAmount :: nat
  sent :: "out_message list"
  closeCalls :: "nat option list"

definition socket_send :: "socket \<Rightarrow> out_message \<Rightarrow> socket" where
  "socket_send ws m = ws\<lparr>sent := sent ws @ [m]\<rparr>"

definition socket_close :: "socket \<Rightarrow> nat option \<Rightarrow> socket" where
  "socket_close ws code =
     ws\<lparr>readyState := (if readyState ws = WS_CLOSED then WS_CLOSED else WS_CLOSING),
        closeCalls := closeCalls ws @ [code]\<rparr>"

subsection \<open>The registry record and the provider\<close>

text \<open>
  \<^verbatim>\<open>ObserverQuery\<close>. The two callbacks hold the promise whose \<^verbatim>\<open>res\<close>
  (\<^verbatim>\<open>rej\<close>) they are; \<open>startAckTimeoutId\<close> holds the identifier \<^verbatim>\<open>setTimeout\<close>
  returned. A callback or an identifier that is present is truthy.
\<close>

record ObserverQuery =
  observer :: nat
  query :: string
  variables :: json
  subscriptionState :: SUBSCRIPTION_STATUS
  subscriptionReadyCallback :: "nat option"
  subscriptionFailedCallback :: "nat option"
  startAckTimeoutId :: "nat option"

text \<open>
  The fields of the class, followed by the environment its methods act on: the
  observers, the armed timers \<open>(id, delay, action)\<close>, the settlement log, the sockets
  the provider has let go of, the events given to the Hub, the subscription id that the
  teardown function of each observer is bound to (\<open>None\<close> when the subscriber function
  returned none), and the calls of teardown functions that a closing signal has set off,
  each with the promise the teardown then waits on (\<open>None\<close> when it waits on nothing
  and resumes at once).
\<close>

record provider =
  awsRealTimeSocket :: "socket option"
  socketStatus :: SOCKET_STATUS
  keepAliveTimeoutId :: "nat option"
  keepAliveTimeout :: nat
  subscriptionObserverMap :: "(string \<times> ObserverQuery) list"
  promiseArray :: "nat list"
  observers :: "nat \<Rightarrow> observer_st"
  timers :: "(nat \<times> nat \<times> timer_action) list"
  nextTimerId :: nat
  settled :: "(nat \<times> settlement) list"
  nextPromiseId :: nat
  released :: "socket list"
  hub :: "(CONTROL_MSG \<times> string \<times> json) list"
  teardown :: "nat \<Rightarrow> string option"
  teardownCalls :: "(string \<times> nat option) list"

text \<open>
  A JavaScript \<^verbatim>\<open>Map\<close> keeps insertion order: \<^verbatim>\<open>set\<close> on a present key replaces the
  value in place, on a new key appends.
\<close>

fun map_set :: "'k \<Rightarrow> 'v \<Rightarrow> ('k \<times> 'v) list \<Rightarrow> ('k \<times> 'v) list" where
  "map_set k v [] = [(k, v)]"
| "map_set k v ((k', v') # kvs) =
     (if k' = k then (k, v) # kvs else (k', v') # map_set k v kvs)"

definition map_get :: "('k \<times> 'v) list \<Rightarrow> 'k \<Rightarrow> 'v option" where
  "map_get kvs k = map_of kvs k"

definition map_delete :: "'k \<Rightarrow> ('k \<times> 'v) list \<Rightarrow> ('k \<times> 'v) list" where
  "map_delete k kvs = filter (\<lambda>kv. fst kv \<noteq> k) kvs"

text \<open>
  \<^verbatim>\<open>_waitForSubscriptionToBeConnected\<close>: for a \<open>PENDING\<close> record a new promise is
  returned and the record is written again with that promise's \<^verbatim>\<open>res\<close> and \<^verbatim>\<open>rej\<close>;
  otherwise nothing is awaited.
\<close>

definition waitForSubscriptionToBeConnected :: "provider \<Rightarrow> string \<Rightarrow> nat option \<times> provider" where
  "waitForSubscriptionToBeConnected s subscriptionId =
     (case map_get (subscriptionObserverMap s) subscriptionId of
        None \<Rightarrow> (None, s)
      | Some subscriptionObserver \<Rightarrow>
          (if subscriptionState subscriptionObserver = PENDING then
             (let p = nextPromiseId s
              in (Some p,
                  s\<lparr>subscriptionObserverMap :=
                      map_set subscriptionId
                        \<lparr>observer = observer subscriptionObserver,
                         query = query subscriptionObserver,
                         variables = variables subscriptionObserver,
                         subscriptionState = subscriptionState subscriptionObserver,
                         subscriptionReadyCallback = Some p,
                         subscriptionFailedCallback = Some p,
                         startAckTimeoutId = None\<rparr>
                        (subscriptionObserverMap s),
                    nextPromiseId := Suc p\<rparr>))
           else (None, s)))"

text \<open>
  The Observable calls the teardown function of an observer it has just closed. The
  teardown function runs up to its \<^verbatim>\<open>await\<close>, that is, through
  \<^verbatim>\<open>_waitForSubscriptionToBeConnected\<close>; what follows the \<^verbatim>\<open>await\<close> is
  \<open>unsubscribe_resume\<close> below.
\<close>

definition call_teardown :: "provider \<Rightarrow> nat \<Rightarrow> provider" where
  "call_teardown s ob =
     (case teardown s ob of
        None \<Rightarrow> s
      | Some subscriptionId \<Rightarrow>
          (let (p, s1) = waitForSubscriptionToBeConnected s subscriptionId
           in s1\<lparr>teardownCalls := teardownCalls s1 @ [(subscriptionId, p)]\<rparr>))"

text \<open>\<^verbatim>\<open>observer.next\<close>, \<^verbatim>\<open>observer.error\<close> and \<^verbatim>\<open>observer.complete\<close>.\<close>

definition obs_next :: "provider \<Rightarrow> nat \<Rightarrow> json \<Rightarrow> provider" where
  "obs_next s ob v =
     (if closed (observers s ob) then s
      else s\<lparr>observers := (observers s)
             (ob := (observers s ob)\<lparr>signals := signals (observers s ob) @ [Next v]\<rparr>)\<rparr>)"

definition obs_error :: "provider \<Rightarrow> nat \<Rightarrow> err_text list \<Rightarrow> provider" where
  "obs_error s ob es =
     (if closed (observers s ob) then s
      else call_teardown
             (s\<lparr>observers := (observers s)
                  (ob := \<lparr>closed = True, signals = signals (observers s ob) @ [Error es]\<rparr>)\<rparr>)
             ob)"

definition obs_complete :: "provider \<Rightarrow> nat \<Rightarrow> provider" where
  "obs_complete s ob =
     (if closed (observers s ob) then s
      else call_teardown
             (s\<lparr>observers := (observers s)
                  (ob := \<lparr>closed = True, signals = signals (observers s ob) @ [Complete]\<rparr>)\<rparr>)
             ob)"

definition settle :: "provider \<Rightarrow> nat \<Rightarrow> settlement \<Rightarrow> provider" where
  "settle s p r = s\<lparr>settled := settled s @ [(p, r)]\<rparr>"

definition setTimeout :: "provider \<Rightarrow> timer_action \<Rightarrow> nat \<Rightarrow> nat \<times> provider" where
  "setTimeout s a d =
     (nextTimerId s,
      s\<lparr>timers := timers s @ [(nextTimerId s, d, a)], nextTimerId := Suc (nextTimerId s)\<rparr>)"

definition clearTimeout :: "provider \<Rightarrow> nat \<Rightarrow> provider" where
  "clearTimeout s t = s\<lparr>timers := filter (\<lambda>x. fst x \<noteq> t) (timers s)\<rparr>"

definition armed :: "provider \<Rightarrow> nat \<Rightarrow> bool" where
  "armed s t = (t \<in> fst ` set (timers s))"

section \<open>Auth header strategy\<close>

type_synonym headers = "(string \<times> string option) list"

record AWSAppSyncRealTimeProviderOptions =
  appSyncGraphqlEndpoint :: "string option"
  authenticationType :: "GraphqlAuthModes option"
  opt_query :: "string option"
  opt_variables :: "json option"
  apiKey :: "string option"
  region :: "string option"
  graphql_headers :: "(js_err + headers) option"
  additionalHeaders :: "(string \<times> string) list option"

text \<open>
  \<^verbatim>\<open>AWSAppSyncRealTimeAuthInput\<close>, the argument of a header handler: the options, the
  payload and canonical URI, and the host parsed from the endpoint.
\<close>

record AWSAppSyncRealTimeAuthInput =
  ai_payload :: string
  ai_canonicalUri :: string
  ai_appSyncGraphqlEndpoint :: "string option"
  ai_apiKey :: "string option"
  ai_region :: "string option"
  ai_host :: "string option"
  ai_additionalHeaders :: "(string \<times> string) list option"

record creds =
  secret_key :: string
  access_key :: string
  session_token :: string

record sign_request =
  sr_url :: string
  sr_data :: string
  sr_method :: string
  sr_headers :: headers

text \<open>
  The collaborators of other packages, as the values they answer with when a handler
  asks: \<^verbatim>\<open>Auth.currentSession()\<close> (the JWT of its access token, or the rejection),
  \<^verbatim>\<open>Cache.getItem('federatedInfo')\<close> (\<open>None\<close> when falsy, else its \<^verbatim>\<open>token\<close>),
  \<^verbatim>\<open>Auth.currentAuthenticatedUser()\<close> (likewise, or the rejection),
  \<^verbatim>\<open>Credentials.get()\<close>, \<^verbatim>\<open>Signer.sign\<close>, \<^verbatim>\<open>new Date().toISOString()\<close>,
  \<^verbatim>\<open>url.parse(_).host\<close>, \<^verbatim>\<open>JSON.stringify\<close> of \<^verbatim>\<open>{ query, variables }\<close>, and
  the user agent header and value of the core package.
\<close>

record collaborators =
  currentSession :: "js_err + string"
  federatedInfo :: "string option option"
  currentAuthenticatedUser :: "js_err + string option option"
  credentials_get :: "js_err + creds option"
  sign :: "sign_request \<Rightarrow> creds \<Rightarrow> string option \<Rightarrow> headers"
  toISOString :: string
  host_of :: "string \<Rightarrow> string option"
  JSON_stringify :: "string option \<Rightarrow> json option \<Rightarrow> string"
  USER_AGENT_HEADER :: string
  userAgent :: string

definition AWS_APPSYNC_REALTIME_HEADERS :: headers where
  "AWS_APPSYNC_REALTIME_HEADERS =
     [(''accept'', Some ''application/json, text/javascript''),
      (''content-encoding'', Some ''amz-1.0''),
      (''content-type'', Some ''application/json; charset=UTF-8'')]"

definition is_digit :: "char \<Rightarrow> bool" where
  "is_digit c = (c \<in> set ''0123456789'')"

text \<open>\<^verbatim>\<open>dt.toISOString().replace(/[:\-]|\.\d{3}/g, '')\<close>\<close>

fun amz_date :: "string \<Rightarrow> string" where
  "amz_date (c # d1 # d2 # d3 # cs) =
     (if c = CHR '':'' \<or> c = CHR ''-'' then amz_date (d1 # d2 # d3 # cs)
      else if c = CHR ''.'' \<and> is_digit d1 \<and> is_digit d2 \<and> is_digit d3 then amz_date cs
      else c # amz_date (d1 # d2 # d3 # cs))"
| "amz_date (c # cs) =
     (if c = CHR '':'' \<or> c = CHR ''-'' then amz_date cs else c # amz_date cs)"
| "amz_date [] = []"

definition awsRealTimeCUPHeader ::
  "collaborators \<Rightarrow> AWSAppSyncRealTimeAuthInput \<Rightarrow> js_err + headers" where
  "awsRealTimeCUPHeader col inp =
     (case currentSession col of
        Inl e \<Rightarrow> Inl e
      | Inr jwt \<Rightarrow> Inr [(''Authorization'', Some jwt), (''host'', ai_host inp)])"

definition awsRealTimeOPENIDHeader ::
  "collaborators \<Rightarrow> AWSAppSyncRealTimeAuthInput \<Rightarrow> js_err + headers" where
  "awsRealTimeOPENIDHeader col inp =
     (let found =
        (case federatedInfo col of
           Some tok \<Rightarrow> Inr tok
         | None \<Rightarrow>
             (case currentAuthenticatedUser col of
                Inl e \<Rightarrow> Inl e
              | Inr None \<Rightarrow> Inr None
              | Inr (Some tok) \<Rightarrow> Inr tok))
      in case found of
           Inl e \<Rightarrow> Inl e
         | Inr None \<Rightarrow> Inl (JsError ''No federated jwt'')
         | Inr (Some tok) \<Rightarrow>
             (if tok = [] then Inl (JsError ''No federated jwt'')
              else Inr [(''Authorization'', Some tok), (''host'', ai_host inp)]))"

definition awsRealTimeApiKeyHeader ::
  "collaborators \<Rightarrow> AWSAppSyncRealTimeAuthInput \<Rightarrow> js_err + headers" where
  "awsRealTimeApiKeyHeader col inp =
     Inr [(''host'', ai_host inp),
          (''x-amz-date'', Some (amz_date (toISOString col))),
          (''x-api-key'', ai_apiKey inp)]"

text \<open>
  \<^verbatim>\<open>_ensureCredentials\<close>: true when \<^verbatim>\<open>Credentials.get()\<close> answers with credentials,
  false when it answers with none or rejects.
\<close>

definition ensureCredentials :: "collaborators \<Rightarrow> bool" where
  "ensureCredentials col =
     (case credentials_get col of Inl e \<Rightarrow> False | Inr None \<Rightarrow> False | Inr (Some c) \<Rightarrow> True)"

definition awsRealTimeIAMHeader ::
  "collaborators \<Rightarrow> AWSAppSyncRealTimeAuthInput \<Rightarrow> js_err + headers" where
  "awsRealTimeIAMHeader col inp =
     (if \<not> ensureCredentials col then Inl (JsError ''No credentials'')
      else case credentials_get col of
             Inr (Some c) \<Rightarrow>
               Inr (sign col
                     \<lparr>sr_url =
                        (case ai_appSyncGraphqlEndpoint inp of
                           None \<Rightarrow> ''undefined'' | Some e \<Rightarrow> e) @ ai_canonicalUri inp,
                      sr_data = ai_payload inp,
                      sr_method = ''POST'',
                      sr_headers = AWS_APPSYNC_REALTIME_HEADERS\<rparr>
                     c (ai_region inp))
           | _ \<Rightarrow> Inl (JsError ''No credentials''))"

definition customAuthHeader ::
  "collaborators \<Rightarrow> AWSAppSyncRealTimeAuthInput \<Rightarrow> js_err + headers" where
  "customAuthHeader col inp =
     (case ai_additionalHeaders inp of
        None \<Rightarrow> Inl (JsError ''No auth token specified'')
      | Some hs \<Rightarrow>
          (case map_of hs ''Authorization'' of
             None \<Rightarrow> Inl (JsError ''No auth token specified'')
           | Some tok \<Rightarrow>
               (if tok = [] then Inl (JsError ''No auth token specified'')
                else Inr [(''Authorization'', Some tok), (''host'', ai_host inp)])))"

text \<open>The table \<^verbatim>\<open>headerHandler\<close>: one handler per key.\<close>

fun headerHandler ::
  "GraphqlAuthModes \<Rightarrow> collaborators \<Rightarrow> AWSAppSyncRealTimeAuthInput \<Rightarrow> js_err + headers" where
  "headerHandler API_KEY = awsRealTimeApiKeyHeader"
| "headerHandler AWS_IAM = awsRealTimeIAMHeader"
| "headerHandler OPENID_CONNECT = awsRealTimeOPENIDHeader"
| "headerHandler AMAZON_COGNITO_USER_POOLS = awsRealTimeCUPHeader"
| "headerHandler AWS_LAMBDA = customAuthHeader"

text \<open>
  What \<^verbatim>\<open>_awsRealTimeHeaderBasedAuth\<close> resolves to: the empty string \<^verbatim>\<open>''\<close> of its
  first branch, or the header set of the handler. \<open>Inl\<close> is a rejection.
\<close>

datatype header_result = EmptyString | HeaderSet headers

definition awsRealTimeHeaderBasedAuth ::
  "collaborators \<Rightarrow> AWSAppSyncRealTimeProviderOptions \<Rightarrow> string \<Rightarrow> string
     \<Rightarrow> js_err + header_result" where
  "awsRealTimeHeaderBasedAuth col opts payload canonicalUri =
     (case authenticationType opts of
        None \<Rightarrow> Inr EmptyString
      | Some mode \<Rightarrow>
          (case headerHandler mode col
                  \<lparr>ai_payload = payload,
                   ai_canonicalUri = canonicalUri,
                   ai_appSyncGraphqlEndpoint = appSyncGraphqlEndpoint opts,
                   ai_apiKey = apiKey opts,
                   ai_region = region opts,
                   ai_host =
                     host_of col
                       (case appSyncGraphqlEndpoint opts of None \<Rightarrow> [] | Some e \<Rightarrow> e),
                   ai_additionalHeaders = additionalHeaders opts\<rparr> of
             Inl e \<Rightarrow> Inl e
           | Inr h \<Rightarrow> Inr (HeaderSet h)))"

section \<open>Socket connection manager\<close>

text \<open>
  \<^verbatim>\<open>_initializeWebSocketConnection\<close>, first segment (up to the first \<^verbatim>\<open>await\<close>):
  \<open>Returned\<close> when the status is \<open>READY\<close>; otherwise a new promise is pushed on
  \<open>promiseArray\<close>, and the caller either only waits on it (\<open>Joined\<close>) or, the status
  being \<open>CLOSED\<close>, has set it to \<open>CONNECTING\<close> and goes on to the handshake
  (\<open>Started\<close>).
\<close>

datatype init_call = Returned | Joined nat | Started nat

definition initializeWebSocketConnection :: "provider \<Rightarrow> init_call \<times> provider" where
  "initializeWebSocketConnection s =
     (if socketStatus s = READY then (Returned, s)
      else
        let p = nextPromiseId s;
            s1 = s\<lparr>promiseArray := promiseArray s @ [p], nextPromiseId := Suc p\<rparr>
        in if socketStatus s1 = CLOSED then (Started p, s1\<lparr>socketStatus := CONNECTING\<rparr>)
           else (Joined p, s1))"

text \<open>The \<^verbatim>\<open>catch\<close> block of \<^verbatim>\<open>_initializeWebSocketConnection\<close>.\<close>

definition initializeWebSocketConnection_catch :: "provider \<Rightarrow> js_err \<Rightarrow> provider" where
  "initializeWebSocketConnection_catch s err =
     (let s1 = fold (\<lambda>p st. settle st p (Rejected (Some err))) (promiseArray s) s;
          s2 = s1\<lparr>promiseArray := []\<rparr>;
          s3 = (case awsRealTimeSocket s2 of
                  None \<Rightarrow> s2
                | Some ws \<Rightarrow>
                    s2\<lparr>released := released s2 @
                         [if readyState ws = WS_OPEN then socket_close ws (Some 3001) else ws]\<rparr>)
      in s3\<lparr>awsRealTimeSocket := None, socketStatus := CLOSED\<rparr>)"

text \<open>
  The request the handshake is started with. The URL string is determined by the
  endpoint, the header value and the payload (it is the rewritten endpoint followed by
  their base64 encodings); the three are kept as they are.
\<close>

record handshake_request =
  hr_endpoint :: string
  hr_header :: header_result
  hr_payload :: string

text \<open>
  Second segment, entered by a \<open>Started\<close> caller: the headers are built; a rejection
  goes to the \<^verbatim>\<open>catch\<close> block, any result goes on to
  \<^verbatim>\<open>_initializeRetryableHandshake(awsRealTimeUrl)\<close>.
\<close>

definition initializeWebSocketConnection_connect ::
  "collaborators \<Rightarrow> provider \<Rightarrow> AWSAppSyncRealTimeProviderOptions
     \<Rightarrow> handshake_request option \<times> provider" where
  "initializeWebSocketConnection_connect col s opts =
     (case awsRealTimeHeaderBasedAuth col opts ''{}'' ''/connect'' of
        Inl e \<Rightarrow> (None, initializeWebSocketConnection_catch s e)
      | Inr h \<Rightarrow>
          (Some \<lparr>hr_endpoint =
                    (case appSyncGraphqlEndpoint opts of None \<Rightarrow> [] | Some e \<Rightarrow> e),
                  hr_header = h, hr_payload = ''{}''\<rparr>, s))"

text \<open>Last segment: the retryable handshake has returned or thrown.\<close>

definition initializeWebSocketConnection_done ::
  "provider \<Rightarrow> js_err + unit \<Rightarrow> provider" where
  "initializeWebSocketConnection_done s outcome =
     (case outcome of
        Inr u \<Rightarrow>
          (fold (\<lambda>p st. settle st p Resolved) (promiseArray s) s)
            \<lparr>socketStatus := READY, promiseArray := []\<rparr>
      | Inl err \<Rightarrow> initializeWebSocketConnection_catch s err)"

subsection \<open>One handshake attempt\<close>

text \<open>
  What the transport does during one attempt: the socket closes before it opens; or it
  opens, \<^verbatim>\<open>connection_init\<close> is sent, and then a \<^verbatim>\<open>connection_ack\<close> arrives (with or
  without \<^verbatim>\<open>connectionTimeoutMs\<close>), or a \<^verbatim>\<open>connection_error\<close> (with or without
  \<^verbatim>\<open>errorType\<close> and \<^verbatim>\<open>errorCode\<close>), or the socket closes (the serialised event is
  the error's message), or \<open>CONNECTION_INIT_TIMEOUT\<close> passes.
\<close>

datatype attempt_event =
    OpenFailed
  | Acked "nat option"
  | ConnectionErrorMsg "string option" "int option"
  | ClosedBeforeAck string
  | NoAck

text \<open>The \<^verbatim>\<open>catch\<close> block of \<^verbatim>\<open>_initializeHandshake\<close>: what it throws for what it caught.\<close>

definition initializeHandshake_catch :: "js_err \<Rightarrow> js_err" where
  "initializeHandshake_catch err =
     (case err of
        ConnectionErrorObj errorType errorCode \<Rightarrow>
          (if errorCode \<in> set NON_RETRYABLE_CODES then NonRetryableError errorType
           else if errorType \<noteq> [] then JsError errorType
           else err)
      | _ \<Rightarrow> err)"

definition initializeHandshake :: "provider \<Rightarrow> attempt_event \<Rightarrow> (js_err + unit) \<times> provider" where
  "initializeHandshake s ev =
     (let opened =
            s\<lparr>awsRealTimeSocket :=
                Some \<lparr>readyState = WS_OPEN, bufferedAmount = 0,
                      sent = [ConnectionInit], closeCalls = []\<rparr>\<rparr>
      in case ev of
           OpenFailed \<Rightarrow>
             (Inl (initializeHandshake_catch (JsError ''Connection handshake error'')), s)
         | Acked ms \<Rightarrow>
             (Inr (),
              opened\<lparr>keepAliveTimeout :=
                       (case ms of None \<Rightarrow> DEFAULT_KEEP_ALIVE_TIMEOUT | Some t \<Rightarrow> t)\<rparr>)
         | ConnectionErrorMsg ty code \<Rightarrow>
             (Inl (initializeHandshake_catch
                     (ConnectionErrorObj (case ty of None \<Rightarrow> [] | Some t \<Rightarrow> t)
                                         (case code of None \<Rightarrow> 0 | Some c \<Rightarrow> c))),
              opened)
         | ClosedBeforeAck event \<Rightarrow>
             (Inl (initializeHandshake_catch (JsError event)),
              s\<lparr>awsRealTimeSocket :=
                  Some \<lparr>readyState = WS_CLOSED, bufferedAmount = 0,
                        sent = [ConnectionInit], closeCalls = []\<rparr>\<rparr>)
         | NoAck \<Rightarrow>
             (Inl (initializeHandshake_catch
                     (JsError ''Connection timeout: ack from AWSRealTime was not received on 15000 ms'')),
              opened))"

subsection \<open>The retry loop\<close>

text \<open>
  Modelled from the spec: the delay before a retry. \<^verbatim>\<open>jitteredExponentialRetry\<close>
  belongs to the core package, whose source is not at hand. By the specification the
  backoff is exponential with a random component and a capped maximum delay per step:
  the delay before retry \<open>k\<close> is \<open>base * 2 ^ k\<close> plus the jitter drawn for it, capped at
  the maximum the caller passes.
\<close>

definition backoff_delay :: "nat \<Rightarrow> nat \<Rightarrow> nat \<Rightarrow> nat \<Rightarrow> nat" where
  "backoff_delay maxDelay base attempt jitter = min maxDelay (base * 2 ^ attempt + jitter)"

text \<open>
  Modelled from the spec: \<^verbatim>\<open>jitteredExponentialRetry\<close> and its reading of
  \<^verbatim>\<open>NonRetryableError\<close>, of the core package, whose source is not at hand; the provider
  only calls \<^verbatim>\<open>jitteredExponentialRetry(this._initializeHandshake.bind(this),
  [awsRealTimeUrl], MAX_DELAY_MS)\<close>. By the specification a non-retryable failure aborts
  the whole loop at once, and every other failure is retried after the backoff delay,
  with no bound on the number of retries. The transport's behaviour is a list of events,
  one per attempt; when the list ends before the loop does, the loop is still retrying
  and the result is \<open>None\<close>. The delays slept are returned with the result.
\<close>

fun jitteredExponentialRetry ::
  "('s \<Rightarrow> 'e \<Rightarrow> (js_err + unit) \<times> 's) \<Rightarrow> nat \<Rightarrow> nat \<Rightarrow> (nat \<Rightarrow> nat) \<Rightarrow> nat \<Rightarrow> 's \<Rightarrow> 'e list
     \<Rightarrow> (js_err + unit) option \<times> nat list \<times> 's" where
  "jitteredExponentialRetry f maxDelay base jit k s [] = (None, [], s)"
| "jitteredExponentialRetry f maxDelay base jit k s (ev # evs) =
     (case f s ev of
        (Inr u, s') \<Rightarrow> (Some (Inr u), [], s')
      | (Inl (NonRetryableError m), s') \<Rightarrow> (Some (Inl (NonRetryableError m)), [], s')
      | (Inl e, s') \<Rightarrow>
          (case jitteredExponentialRetry f maxDelay base jit (Suc k) s' evs of
             (r, ds, s'') \<Rightarrow> (r, backoff_delay maxDelay base k (jit k) # ds, s'')))"

text \<open>
  \<^verbatim>\<open>_initializeRetryableHandshake\<close>: the result, the delays slept between the attempts,
  and the provider after the last attempt. The base delay and the jitter are the retry
  function's own; they are arguments here.
\<close>

definition initializeRetryableHandshake ::
  "nat \<Rightarrow> (nat \<Rightarrow> nat) \<Rightarrow> provider \<Rightarrow> attempt_event list
     \<Rightarrow> (js_err + unit) option \<times> nat list \<times> provider" where
  "initializeRetryableHandshake base jit s evs =
     jitteredExponentialRetry initializeHandshake MAX_DELAY_MS base jit 0 s evs"

section \<open>Subscription registry and lifecycle\<close>

subsection \<open>Subscribe\<close>

text \<open>
  \<^verbatim>\<open>_startSubscriptionWithAWSAppSyncRealTime\<close>, first segment: the record is written
  with state \<open>PENDING\<close>.
\<close>

definition startSubscription_register ::
  "provider \<Rightarrow> AWSAppSyncRealTimeProviderOptions \<Rightarrow> nat \<Rightarrow> string \<Rightarrow> provider" where
  "startSubscription_register s opts ob subscriptionId =
     s\<lparr>subscriptionObserverMap :=
         map_set subscriptionId
           \<lparr>observer = ob,
            query = (case opt_query opts of None \<Rightarrow> [] | Some q \<Rightarrow> q),
            variables = (case opt_variables opts of None \<Rightarrow> JObj [] | Some v \<Rightarrow> v),
            subscriptionState = PENDING,
            subscriptionReadyCallback = None,
            subscriptionFailedCallback = None,
            startAckTimeoutId = None\<rparr>
           (subscriptionObserverMap s)\<rparr>"

text \<open>
  The subscriber function of the \<^verbatim>\<open>Observable\<close> that \<^verbatim>\<open>subscribe\<close> returns, run for
  the observer \<open>ob\<close> that the Observable has created for this subscription: the observer
  is new, so it is open, has received nothing and has no teardown function yet. \<open>uuid\<close>
  is the value \<^verbatim>\<open>uuid()\<close> returns. The result is the subscription id the returned
  teardown function is bound to, or \<open>None\<close> when no teardown is returned.
  \<^verbatim>\<open>_topics\<close> is not used.
\<close>

definition subscribe ::
  "provider \<Rightarrow> string \<Rightarrow> string list \<Rightarrow> AWSAppSyncRealTimeProviderOptions option \<Rightarrow> nat
     \<Rightarrow> string option \<times> provider" where
  "subscribe s uuid topics options ob =
     (let s0 = s\<lparr>observers := (observers s)(ob := \<lparr>closed = False, signals = []\<rparr>),
                teardown := (teardown s)(ob := None)\<rparr>;
          refused =
            (None,
             obs_complete
               (obs_error s0 ob [PlainText ''Subscribe only available for AWS AppSync endpoint''])
               ob)
      in case options of
           None \<Rightarrow> refused
         | Some opts \<Rightarrow>
             (case appSyncGraphqlEndpoint opts of
                None \<Rightarrow> refused
              | Some endpoint \<Rightarrow>
                  (if endpoint = [] then refused
                   else (Some uuid,
                         (startSubscription_register s0 opts ob uuid)
                           \<lparr>teardown := (teardown s0)(ob := Some uuid)\<rparr>))))"

text \<open>Object spread: the later source overrides the earlier, key by key.\<close>

definition spread :: "headers \<Rightarrow> headers \<Rightarrow> headers" where
  "spread earlier later = fold (\<lambda>kv acc. map_set (fst kv) (snd kv) acc) later earlier"

definition dataString :: "collaborators \<Rightarrow> AWSAppSyncRealTimeProviderOptions \<Rightarrow> string" where
  "dataString col opts = JSON_stringify col (opt_query opts) (opt_variables opts)"

text \<open>Second segment: \<^verbatim>\<open>headerObj\<close>, or the rejection of one of the two awaits.\<close>

definition startSubscription_headers ::
  "collaborators \<Rightarrow> AWSAppSyncRealTimeProviderOptions \<Rightarrow> js_err + headers" where
  "startSubscription_headers col opts =
     (case awsRealTimeHeaderBasedAuth col opts (dataString col opts) [] of
        Inl e \<Rightarrow> Inl e
      | Inr h \<Rightarrow>
          (case (case graphql_headers opts of None \<Rightarrow> Inr [] | Some g \<Rightarrow> g) of
             Inl e \<Rightarrow> Inl e
           | Inr g \<Rightarrow>
               Inr (spread
                      (spread
                         (spread (case h of EmptyString \<Rightarrow> [] | HeaderSet hs \<Rightarrow> hs) g)
                         (map (\<lambda>kv. (fst kv, Some (snd kv)))
                            (case additionalHeaders opts of None \<Rightarrow> [] | Some a \<Rightarrow> a)))
                      [(USER_AGENT_HEADER col, Some (userAgent col))])))"

text \<open>The \<^verbatim>\<open>.catch\<close> that \<^verbatim>\<open>subscribe\<close> puts on the start of the subscription.\<close>

definition subscribe_catch :: "provider \<Rightarrow> nat \<Rightarrow> js_err \<Rightarrow> provider" where
  "subscribe_catch s ob err =
     obs_complete
       (obs_error s ob [ControlDetail REALTIME_SUBSCRIPTION_INIT_ERROR (DetailErr err)]) ob"

text \<open>
  Last segment, after \<^verbatim>\<open>await this._initializeWebSocketConnection(...)\<close>: on a
  rejection the consumer is told, and the failed waiter that the record holds after that
  (the one of an earlier unsubscribe, or the one of the teardown the error has just set
  off) is called; otherwise the callbacks are read from the record, the record is written
  again with the ack timer armed, and the start message is sent.
\<close>

definition startSubscription_connected ::
  "provider \<Rightarrow> AWSAppSyncRealTimeProviderOptions \<Rightarrow> nat \<Rightarrow> string \<Rightarrow> string \<Rightarrow> headers
     \<Rightarrow> js_err + unit \<Rightarrow> provider" where
  "startSubscription_connected s opts ob subscriptionId dataStr headerObj outcome =
     (let found = map_get (subscriptionObserverMap s) subscriptionId
      in case outcome of
           Inl err \<Rightarrow>
             (let s1 = obs_complete
                         (obs_error s ob
                            [ControlDetail CONNECTION_FAILED (DetailText (message_of err))])
                         ob
              in case Option.bind (map_get (subscriptionObserverMap s1) subscriptionId)
                        subscriptionFailedCallback of
                   Some p \<Rightarrow> settle s1 p (Rejected None)
                 | None \<Rightarrow> s1)
         | Inr u \<Rightarrow>
             (let (t, s1) = setTimeout s (StartAckTimeout subscriptionId) START_ACK_TIMEOUT;
                  s2 = s1\<lparr>subscriptionObserverMap :=
                            map_set subscriptionId
                              \<lparr>observer = ob,
                               query = (case opt_query opts of None \<Rightarrow> [] | Some q \<Rightarrow> q),
                               variables =
                                 (case opt_variables opts of None \<Rightarrow> JObj [] | Some v \<Rightarrow> v),
                               subscriptionState = PENDING,
                               subscriptionReadyCallback =
                                 Option.bind found subscriptionReadyCallback,
                               subscriptionFailedCallback =
                                 Option.bind found subscriptionFailedCallback,
                               startAckTimeoutId = Some t\<rparr>
                              (subscriptionObserverMap s1)\<rparr>
              in case awsRealTimeSocket s2 of
                   None \<Rightarrow> s2
                 | Some ws \<Rightarrow>
                     s2\<lparr>awsRealTimeSocket :=
                          Some (socket_send ws (Start subscriptionId dataStr headerObj))\<rparr>))"

subsection \<open>Unsubscribe\<close>

definition sendUnsubscriptionMessage :: "provider \<Rightarrow> string \<Rightarrow> provider" where
  "sendUnsubscriptionMessage s subscriptionId =
     (case awsRealTimeSocket s of
        None \<Rightarrow> s
      | Some ws \<Rightarrow>
          (if readyState ws = WS_OPEN \<and> socketStatus s = READY
           then s\<lparr>awsRealTimeSocket := Some (socket_send ws (Stop subscriptionId))\<rparr>
           else s))"

definition removeSubscriptionObserver :: "provider \<Rightarrow> string \<Rightarrow> provider" where
  "removeSubscriptionObserver s subscriptionId =
     snd (setTimeout
            (s\<lparr>subscriptionObserverMap := map_delete subscriptionId (subscriptionObserverMap s)\<rparr>)
            CloseSocketCheck 1000)"

definition closeSocketIfRequired :: "provider \<Rightarrow> provider" where
  "closeSocketIfRequired s =
     (if subscriptionObserverMap s \<noteq> [] then s
      else case awsRealTimeSocket s of
             None \<Rightarrow> s\<lparr>socketStatus := CLOSED\<rparr>
           | Some ws \<Rightarrow>
               (if bufferedAmount ws > 0 then snd (setTimeout s CloseSocketCheck 1000)
                else
                  (let s1 = (case keepAliveTimeoutId s of
                               None \<Rightarrow> s | Some t \<Rightarrow> clearTimeout s t)
                   in s1\<lparr>released := released s1 @ [socket_close ws (Some 1000)],
                         awsRealTimeSocket := None,
                         socketStatus := CLOSED\<rparr>)))"

text \<open>
  The teardown function after its \<^verbatim>\<open>await\<close>, given how the awaited promise was
  settled. \<^verbatim>\<open>!subscriptionState\<close> holds for an absent record and for \<open>PENDING\<close>, the
  member numbered 0; \<open>FAILED\<close> throws into the \<^verbatim>\<open>catch\<close>; \<^verbatim>\<open>finally\<close> removes the
  record.
\<close>

definition unsubscribe_resume :: "provider \<Rightarrow> string \<Rightarrow> settlement \<Rightarrow> provider" where
  "unsubscribe_resume s subscriptionId outcome =
     (let s1 =
            (case outcome of
               Rejected e \<Rightarrow> s
             | Resolved \<Rightarrow>
                 (case map_get (subscriptionObserverMap s) subscriptionId of
                    None \<Rightarrow> s
                  | Some r \<Rightarrow>
                      (case subscriptionState r of
                         PENDING \<Rightarrow> s
                       | CONNECTED \<Rightarrow> sendUnsubscriptionMessage s subscriptionId
                       | FAILED \<Rightarrow> s)))
      in removeSubscriptionObserver s1 subscriptionId)"

text \<open>
  The teardown function from its call: it either runs through (nothing to wait for) or
  stops at the promise it waits on, to be resumed when that promise is settled.
\<close>

definition unsubscribe :: "provider \<Rightarrow> string \<Rightarrow> nat option \<times> provider" where
  "unsubscribe s subscriptionId =
     (case waitForSubscriptionToBeConnected s subscriptionId of
        (None, s1) \<Rightarrow> (None, unsubscribe_resume s1 subscriptionId Resolved)
      | (Some p, s1) \<Rightarrow> (Some p, s1))"

text \<open>
  The consumer unsubscribes: its observer is closed, and the teardown is called
  (\<open>unsubscribe\<close> above).
\<close>

definition obs_close :: "provider \<Rightarrow> nat \<Rightarrow> provider" where
  "obs_close s ob = s\<lparr>observers := (observers s)(ob := (observers s ob)\<lparr>closed := True\<rparr>)\<rparr>"

subsection \<open>Inbound messages\<close>

text \<open>\<^verbatim>\<open>JSON.parse(message.data)\<close>, destructured into \<^verbatim>\<open>id\<close>, \<^verbatim>\<open>payload\<close>, \<^verbatim>\<open>type\<close>.\<close>

record message =
  msg_id :: "string option"
  msg_payload :: "json option"
  msg_type :: "string option"

definition errorDisconnect :: "provider \<Rightarrow> CONTROL_MSG \<Rightarrow> provider" where
  "errorDisconnect s msg =
     (let s1 = fold (\<lambda>kv st.
                  if \<not> closed (observers st (observer (snd kv)))
                  then obs_error st (observer (snd kv)) [ControlText msg]
                  else st)
                (subscriptionObserverMap s) s;
          s2 = s1\<lparr>subscriptionObserverMap := []\<rparr>;
          s3 = (case awsRealTimeSocket s2 of
                  None \<Rightarrow> s2
                | Some ws \<Rightarrow> s2\<lparr>awsRealTimeSocket := Some (socket_close ws None)\<rparr>)
      in s3\<lparr>socketStatus := CLOSED\<rparr>)"

definition timeoutStartSubscriptionAck :: "provider \<Rightarrow> string \<Rightarrow> provider" where
  "timeoutStartSubscriptionAck s subscriptionId =
     (case map_get (subscriptionObserverMap s) subscriptionId of
        None \<Rightarrow> s
      | Some subscriptionObserver \<Rightarrow>
          (let ob = observer subscriptionObserver;
               s1 = s\<lparr>subscriptionObserverMap :=
                         map_set subscriptionId
                           \<lparr>observer = ob,
                            query = query subscriptionObserver,
                            variables = variables subscriptionObserver,
                            subscriptionState = FAILED,
                            subscriptionReadyCallback = None,
                            subscriptionFailedCallback = None,
                            startAckTimeoutId = None\<rparr>
                           (subscriptionObserverMap s)\<rparr>
           in if \<not> closed (observers s1 ob)
              then obs_complete
                     (obs_error s1 ob
                        [SubscriptionTimeoutText (query subscriptionObserver)
                           (variables subscriptionObserver)])
                     ob
              else s1))"

definition handleIncomingSubscriptionMessage :: "provider \<Rightarrow> message \<Rightarrow> provider" where
  "handleIncomingSubscriptionMessage s m =
     (let id = (case msg_id m of None \<Rightarrow> [] | Some i \<Rightarrow> i);
          found = map_get (subscriptionObserverMap s) id;
          q = (case found of None \<Rightarrow> [] | Some r \<Rightarrow> query r);
          vs = (case found of None \<Rightarrow> JObj [] | Some r \<Rightarrow> variables r)
      in if msg_type m = Some (wire GQL_DATA) \<and> truthy (msg_payload m)
              \<and> truthy (get_prop (msg_payload m) ''data'') then
           (case (found, msg_payload m) of
              (Some r, Some payload) \<Rightarrow> obs_next s (observer r) payload
            | _ \<Rightarrow> s)
         else if msg_type m = Some (wire GQL_START_ACK) then
           (let s1 = (case Option.bind found subscriptionReadyCallback of
                        None \<Rightarrow> s | Some p \<Rightarrow> settle s p Resolved);
                s2 = (case Option.bind found startAckTimeoutId of
                        None \<Rightarrow> s1 | Some t \<Rightarrow> clearTimeout s1 t);
                s3 = s2\<lparr>hub := hub s2 @ [(SUBSCRIPTION_ACK, q, vs)]\<rparr>
            in case found of
                 None \<Rightarrow> s3
               | Some r \<Rightarrow>
                   s3\<lparr>subscriptionObserverMap :=
                        map_set id
                          \<lparr>observer = observer r, query = q, variables = vs,
                           subscriptionState = CONNECTED,
                           subscriptionReadyCallback = subscriptionReadyCallback r,
                           subscriptionFailedCallback = subscriptionFailedCallback r,
                           startAckTimeoutId = None\<rparr>
                          (subscriptionObserverMap s3)\<rparr>)
         else if msg_type m = Some (wire GQL_CONNECTION_KEEP_ALIVE) then
           (let s1 = (case keepAliveTimeoutId s of None \<Rightarrow> s | Some t \<Rightarrow> clearTimeout s t);
                (t, s2) = setTimeout s1 KeepAliveTimeout (keepAliveTimeout s1)
            in s2\<lparr>keepAliveTimeoutId := Some t\<rparr>)
         else if msg_type m = Some (wire GQL_ERROR) then
           (case found of
              None \<Rightarrow> s
            | Some r \<Rightarrow>
                (let s1 = s\<lparr>subscriptionObserverMap :=
                              map_set id
                                \<lparr>observer = observer r, query = q, variables = vs,
                                 subscriptionState = FAILED,
                                 subscriptionReadyCallback = subscriptionReadyCallback r,
                                 subscriptionFailedCallback = subscriptionFailedCallback r,
                                 startAckTimeoutId = startAckTimeoutId r\<rparr>
                                (subscriptionObserverMap s)\<rparr>;
                     s2 = obs_error s1 (observer r)
                            [ControlDetail CONNECTION_FAILED (DetailJson (msg_payload m))];
                     s3 = (case startAckTimeoutId r of
                             None \<Rightarrow> s2 | Some t \<Rightarrow> clearTimeout s2 t);
                     s4 = obs_complete s3 (observer r)
                 in case subscriptionFailedCallback r of
                      None \<Rightarrow> s4
                    | Some p \<Rightarrow> settle s4 p (Rejected None)))
         else s)"

subsection \<open>Timers\<close>

text \<open>
  The callbacks given to \<^verbatim>\<open>setTimeout\<close>: \<^verbatim>\<open>_timeoutStartSubscriptionAck\<close> for a
  subscription, \<^verbatim>\<open>_errorDisconnect\<close> bound to \<open>TIMEOUT_DISCONNECT\<close> for the keep-alive,
  \<^verbatim>\<open>_closeSocketIfRequired\<close>.
\<close>

fun run_timer :: "provider \<Rightarrow> timer_action \<Rightarrow> provider" where
  "run_timer s (StartAckTimeout subscriptionId) = timeoutStartSubscriptionAck s subscriptionId"
| "run_timer s KeepAliveTimeout = errorDisconnect s TIMEOUT_DISCONNECT"
| "run_timer s CloseSocketCheck = closeSocketIfRequired s"

text \<open>An armed timer expires: it leaves the armed timers and its callback runs.\<close>

definition fire_timer :: "provider \<Rightarrow> nat \<Rightarrow> provider" where
  "fire_timer s t =
     (case find (\<lambda>x. fst x = t) (timers s) of
        None \<Rightarrow> s
      | Some (t', d, a) \<Rightarrow> run_timer (clearTimeout s t) a)"

section \<open>Example states\<close>

text \<open>A provider as constructed: closed, nothing registered, no observer has seen a signal.\<close>

definition provider0 :: provider where
  "provider0 =
     \<lparr>awsRealTimeSocket = None, socketStatus = CLOSED, keepAliveTimeoutId = None,
      keepAliveTimeout = DEFAULT_KEEP_ALIVE_TIMEOUT, subscriptionObserverMap = [],
      promiseArray = [], observers = (\<lambda>ob. \<lparr>closed = False, signals = []\<rparr>), timers = [],
      nextTimerId = 1, settled = [], nextPromiseId = 0, released = [], hub = [],
      teardown = (\<lambda>ob. None), teardownCalls = []\<rparr>"

definition collaborators0 :: collaborators where
  "collaborators0 =
     \<lparr>currentSession = Inr ''jwt'', federatedInfo = None,
      currentAuthenticatedUser = Inr None, credentials_get = Inr None,
      sign = (\<lambda>r c g. sr_headers r), toISOString = ''2021-03-04T05:06:07.089Z'',
      host_of = (\<lambda>u. Some ''example.com''), JSON_stringify = (\<lambda>q v. ''{}''),
      USER_AGENT_HEADER = ''x-amz-user-agent'', userAgent = ''aws-amplify''\<rparr>"

definition options0 :: AWSAppSyncRealTimeProviderOptions where
  "options0 =
     \<lparr>appSyncGraphqlEndpoint = Some ''https://example.com/graphql'',
      authenticationType = Some API_KEY, opt_query = Some ''{onCreate}'', opt_variables = None,
      apiKey = Some ''key'', region = None, graphql_headers = None, additionalHeaders = None\<rparr>"

text \<open>The same options without an authentication type.\<close>

definition options_no_mode :: AWSAppSyncRealTimeProviderOptions where
  "options_no_mode = options0\<lparr>authenticationType := None\<rparr>"

text \<open>Two jitter sequences: none at all, and 7 ms before every retry.\<close>

definition jitter0 :: "nat \<Rightarrow> nat" where
  "jitter0 k = 0"

definition jitter7 :: "nat \<Rightarrow> nat" where
  "jitter7 k = 7"

text \<open>A first caller has found the provider closed and is in the handshake.\<close>

definition connecting0 :: provider where
  "connecting0 = snd (initializeWebSocketConnection provider0)"

text \<open>The handshake was acknowledged at the first attempt.\<close>

definition connected0 :: provider where
  "connected0 =
     (let (rq, s2) = initializeWebSocketConnection_connect collaborators0 connecting0 options0;
          (r, ds, s3) = initializeRetryableHandshake 100 jitter0 s2 [Acked None]
      in initializeWebSocketConnection_done s3 (Inr ()))"

text \<open>
  Observer 7 has subscribed with the generated id \<open>s1\<close>; the start message is sent and
  the ack timer (timer 1) is armed.
\<close>

definition pending0 :: provider where
  "pending0 =
     (let (i, s1) = subscribe connected0 ''s1'' [] (Some options0) 7
      in startSubscription_connected s1 options0 7 ''s1'' ''{}'' [] (Inr ()))"

text \<open>
  The consumer has then unsubscribed before any ack: the teardown waits on promise 1.
\<close>

definition waiting0 :: provider where
  "waiting0 = snd (unsubscribe (obs_close pending0 7) ''s1'')"

text \<open>
  Another run from the start: observer 9 subscribes with the generated id \<open>s1\<close> on the
  closed provider and its consumer unsubscribes while the handshake is under way (the
  teardown waits on promise 1); the handshake is then acknowledged, the start message is
  sent and the ack timer (timer 1) is armed.
\<close>

definition early_unsub0 :: provider where
  "early_unsub0 =
     (let (i, s1) = subscribe provider0 ''s1'' [] (Some options0) 9;
          (c, s2) = initializeWebSocketConnection s1;
          (p, s3) = unsubscribe (obs_close s2 9) ''s1'';
          (rq, s4) = initializeWebSocketConnection_connect collaborators0 s3 options0;
          (r, ds, s5) = initializeRetryableHandshake 100 jitter0 s4 [Acked None];
          s6 = initializeWebSocketConnection_done s5 (Inr ())
      in startSubscription_connected s6 options0 9 ''s1'' ''{}'' [] (Inr ()))"

text \<open>
  Observer 8 has subscribed after that with the generated id \<open>s2\<close>; its start message
  is sent and its ack timer (timer 2) is armed.
\<close>

definition two_subs0 :: provider where
  "two_subs0 =
     (let (i, s1) = subscribe waiting0 ''s2'' [] (Some options0) 8
      in startSubscription_connected s1 options0 8 ''s2'' ''{}'' [] (Inr ()))"

text \<open>
  A third run from the start: observer 7 subscribes with the generated id \<open>s1\<close> on the
  closed provider, the handshake is refused with code 401, and the subscription is told
  that the connection has failed.
\<close>

definition rejected0 :: provider where
  "rejected0 =
     (let (i, s1) = subscribe provider0 ''s1'' [] (Some options0) 7;
          (c, s2) = initializeWebSocketConnection s1;
          (rq, s3) = initializeWebSocketConnection_connect collaborators0 s2 options0;
          (r, ds, s4) = initializeRetryableHandshake 100 jitter0 s3
                          [ConnectionErrorMsg (Some ''UnauthorizedException'') (Some 401)];
          s5 = initializeWebSocketConnection_done s4
                 (Inl (NonRetryableError ''UnauthorizedException''))
      in startSubscription_connected s5 options0 7 ''s1'' ''{}'' []
           (Inl (NonRetryableError ''UnauthorizedException'')))"

section \<open>Properties\<close>

subsection \<open>Auxiliary facts\<close>

lemma fold_settle:
  "fold (\<lambda>p st. settle st p r) ps s = s\<lparr>settled := settled s @ map (\<lambda>p. (p, r)) ps\<rparr>"
  by (induction ps arbitrary: s) (simp_all add: settle_def)

lemma map_get_map_set: "map_get (map_set k v kvs) k = Some v"
  by (induction kvs) (auto simp: map_get_def)

lemma map_get_map_set_other: "k' \<noteq> k \<Longrightarrow> map_get (map_set k v kvs) k' = map_get kvs k'"
  by (induction kvs) (auto simp: map_get_def)

lemma map_get_map_delete: "map_get (map_delete k kvs) k = None"
  by (induction kvs) (auto simp: map_get_def map_delete_def)

lemma truthy_get_prop: "truthy (get_prop v k) \<Longrightarrow> truthy v"
  by (cases "(v, k)" rule: get_prop.cases) auto

lemma call_teardown_frame:
  "observers (call_teardown s ob) = observers s"
  "awsRealTimeSocket (call_teardown s ob) = awsRealTimeSocket s"
  "socketStatus (call_teardown s ob) = socketStatus s"
  "timers (call_teardown s ob) = timers s"
  "promiseArray (call_teardown s ob) = promiseArray s"
  "settled (call_teardown s ob) = settled s"
  by (simp_all add: call_teardown_def waitForSubscriptionToBeConnected_def Let_def
        split: option.split)

lemma call_teardown_keeps_settled_record:
  "map_option subscriptionState (map_get (subscriptionObserverMap s) sid) \<noteq> Some PENDING \<Longrightarrow>
     map_get (subscriptionObserverMap (call_teardown s ob)) sid =
       map_get (subscriptionObserverMap s) sid"
  by (cases "teardown s ob = Some sid")
     (auto simp: call_teardown_def waitForSubscriptionToBeConnected_def Let_def
        map_get_map_set_other split: option.splits)

lemma call_teardown_not_pending:
  "teardown s ob = Some sid \<Longrightarrow>
   map_option subscriptionState (map_get (subscriptionObserverMap s) sid) \<noteq> Some PENDING \<Longrightarrow>
     call_teardown s ob = s\<lparr>teardownCalls := teardownCalls s @ [(sid, None)]\<rparr>"
  by (auto simp: call_teardown_def waitForSubscriptionToBeConnected_def split: option.splits)

lemma obs_error_observers:
  "observers (obs_error s ob es) =
     (if closed (observers s ob) then observers s
      else (observers s)(ob := \<lparr>closed = True, signals = signals (observers s ob) @ [Error es]\<rparr>))"
  by (simp add: obs_error_def call_teardown_frame)

lemma obs_error_frame:
  "awsRealTimeSocket (obs_error s ob es) = awsRealTimeSocket s"
  "socketStatus (obs_error s ob es) = socketStatus s"
  "timers (obs_error s ob es) = timers s"
  "promiseArray (obs_error s ob es) = promiseArray s"
  by (simp_all add: obs_error_def call_teardown_frame)

lemma forEach_error_socket:
  "awsRealTimeSocket (fold (\<lambda>kv st. if \<not> closed (observers st (observer (snd kv)))
                  then obs_error st (observer (snd kv)) es else st) kvs s) = awsRealTimeSocket s"
  by (induction kvs arbitrary: s) (simp_all add: obs_error_frame)

lemma forEach_error_observers:
  "observers (fold (\<lambda>kv st. if \<not> closed (observers st (observer (snd kv)))
                  then obs_error st (observer (snd kv)) es else st) kvs s) ob =
   (if ob \<in> observer ` snd ` set kvs \<and> \<not> closed (observers s ob)
    then \<lparr>closed = True, signals = signals (observers s ob) @ [Error es]\<rparr>
    else observers s ob)"
proof (induction kvs arbitrary: s)
  case Nil
  show ?case by simp
next
  case (Cons kv kvs)
  show ?case
    by (simp add: Cons.IH obs_error_observers)
qed

lemma backoff_delay_capped: "backoff_delay MAX_DELAY_MS base k j \<le> 5000"
  by (simp add: backoff_delay_def MAX_DELAY_MS_def)

subsection \<open>The example states, evaluated\<close>

lemma connecting0_simps:
  "socketStatus connecting0 = CONNECTING" "promiseArray connecting0 = [0]"
  "nextPromiseId connecting0 = 1" "settled connecting0 = []"
  by (simp_all add: connecting0_def initializeWebSocketConnection_def provider0_def Let_def)

lemma connected0_eq:
  "connected0 =
     \<lparr>awsRealTimeSocket =
        Some \<lparr>readyState = WS_OPEN, bufferedAmount = 0, sent = [ConnectionInit], closeCalls = []\<rparr>,
      socketStatus = READY, keepAliveTimeoutId = None,
      keepAliveTimeout = DEFAULT_KEEP_ALIVE_TIMEOUT, subscriptionObserverMap = [],
      promiseArray = [], observers = (\<lambda>ob. \<lparr>closed = False, signals = []\<rparr>), timers = [],
      nextTimerId = 1, settled = [(0, Resolved)], nextPromiseId = 1, released = [], hub = [],
      teardown = (\<lambda>ob. None), teardownCalls = []\<rparr>"
  by (simp add: connected0_def connecting0_def initializeWebSocketConnection_def provider0_def
       Let_def initializeWebSocketConnection_connect_def awsRealTimeHeaderBasedAuth_def options0_def
       awsRealTimeApiKeyHeader_def initializeRetryableHandshake_def initializeHandshake_def
       initializeWebSocketConnection_done_def settle_def)

lemma pending0_eq:
  "pending0 =
     \<lparr>awsRealTimeSocket =
        Some \<lparr>readyState = WS_OPEN, bufferedAmount = 0,
              sent = [ConnectionInit, Start ''s1'' ''{}'' []], closeCalls = []\<rparr>,
      socketStatus = READY, keepAliveTimeoutId = None,
      keepAliveTimeout = DEFAULT_KEEP_ALIVE_TIMEOUT,
      subscriptionObserverMap =
        [(''s1'', \<lparr>observer = 7, query = ''{onCreate}'', variables = JObj [],
                   subscriptionState = PENDING, subscriptionReadyCallback = None,
                   subscriptionFailedCallback = None, startAckTimeoutId = Some 1\<rparr>)],
      promiseArray = [],
      observers = (\<lambda>ob. \<lparr>closed = False, signals = []\<rparr>)(7 := \<lparr>closed = False, signals = []\<rparr>),
      timers = [(1, 15000, StartAckTimeout ''s1'')],
      nextTimerId = 2, settled = [(0, Resolved)], nextPromiseId = 1, released = [], hub = [],
      teardown = (\<lambda>ob. None)(7 := Some ''s1''), teardownCalls = []\<rparr>"
  by (simp add: pending0_def connected0_eq subscribe_def options0_def startSubscription_register_def
     startSubscription_connected_def setTimeout_def map_get_def socket_send_def Let_def START_ACK_TIMEOUT_def)

lemma waiting0_eq:
  "waiting0 =
     \<lparr>awsRealTimeSocket =
        Some \<lparr>readyState = WS_OPEN, bufferedAmount = 0,
              sent = [ConnectionInit, Start ''s1'' ''{}'' []], closeCalls = []\<rparr>,
      socketStatus = READY, keepAliveTimeoutId = None,
      keepAliveTimeout = DEFAULT_KEEP_ALIVE_TIMEOUT,
      subscriptionObserverMap =
        [(''s1'', \<lparr>observer = 7, query = ''{onCreate}'', variables = JObj [],
                   subscriptionState = PENDING, subscriptionReadyCallback = Some 1,
                   subscriptionFailedCallback = Some 1, startAckTimeoutId = None\<rparr>)],
      promiseArray = [],
      observers = (\<lambda>ob. \<lparr>closed = False, signals = []\<rparr>)(7 := \<lparr>closed = True, signals = []\<rparr>),
      timers = [(1, 15000, StartAckTimeout ''s1'')],
      nextTimerId = 2, settled = [(0, Resolved)], nextPromiseId = 2, released = [], hub = [],
      teardown = (\<lambda>ob. None)(7 := Some ''s1''), teardownCalls = []\<rparr>"
  by (simp add: waiting0_def pending0_eq unsubscribe_def waitForSubscriptionToBeConnected_def
       obs_close_def map_get_def Let_def)

lemma early_unsub0_eq:
  "early_unsub0 =
     \<lparr>awsRealTimeSocket =
        Some \<lparr>readyState = WS_OPEN, bufferedAmount = 0,
              sent = [ConnectionInit, Start ''s1'' ''{}'' []], closeCalls = []\<rparr>,
      socketStatus = READY, keepAliveTimeoutId = None,
      keepAliveTimeout = DEFAULT_KEEP_ALIVE_TIMEOUT,
      subscriptionObserverMap =
        [(''s1'', \<lparr>observer = 9, query = ''{onCreate}'', variables = JObj [],
                   subscriptionState = PENDING, subscriptionReadyCallback = Some 1,
                   subscriptionFailedCallback = Some 1, startAckTimeoutId = Some 1\<rparr>)],
      promiseArray = [],
      observers = (\<lambda>ob. \<lparr>closed = False, signals = []\<rparr>)(9 := \<lparr>closed = True, signals = []\<rparr>),
      timers = [(1, 15000, StartAckTimeout ''s1'')],
      nextTimerId = 2, settled = [(0, Resolved)], nextPromiseId = 2, released = [], hub = [],
      teardown = (\<lambda>ob. None)(9 := Some ''s1''), teardownCalls = []\<rparr>"
  by (simp add: early_unsub0_def provider0_def subscribe_def options0_def
       startSubscription_register_def initializeWebSocketConnection_def unsubscribe_def
       waitForSubscriptionToBeConnected_def obs_close_def map_get_def
       initializeWebSocketConnection_connect_def awsRealTimeHeaderBasedAuth_def
       awsRealTimeApiKeyHeader_def initializeRetryableHandshake_def initializeHandshake_def
       initializeWebSocketConnection_done_def settle_def startSubscription_connected_def
       setTimeout_def socket_send_def START_ACK_TIMEOUT_def Let_def)

lemma two_subs0_eq:
  "two_subs0 =
     \<lparr>awsRealTimeSocket =
        Some \<lparr>readyState = WS_OPEN, bufferedAmount = 0,
              sent = [ConnectionInit, Start ''s1'' ''{}'' [], Start ''s2'' ''{}'' []],
              closeCalls = []\<rparr>,
      socketStatus = READY, keepAliveTimeoutId = None,
      keepAliveTimeout = DEFAULT_KEEP_ALIVE_TIMEOUT,
      subscriptionObserverMap =
        [(''s1'', \<lparr>observer = 7, query = ''{onCreate}'', variables = JObj [],
                   subscriptionState = PENDING, subscriptionReadyCallback = Some 1,
                   subscriptionFailedCallback = Some 1, startAckTimeoutId = None\<rparr>),
         (''s2'', \<lparr>observer = 8, query = ''{onCreate}'', variables = JObj [],
                   subscriptionState = PENDING, subscriptionReadyCallback = None,
                   subscriptionFailedCallback = None, startAckTimeoutId = Some 2\<rparr>)],
      promiseArray = [],
      observers = (\<lambda>ob. \<lparr>closed = False, signals = []\<rparr>)
        (7 := \<lparr>closed = True, signals = []\<rparr>, 8 := \<lparr>closed = False, signals = []\<rparr>),
      timers = [(1, 15000, StartAckTimeout ''s1''), (2, 15000, StartAckTimeout ''s2'')],
      nextTimerId = 3, settled = [(0, Resolved)], nextPromiseId = 2, released = [], hub = [],
      teardown = (\<lambda>ob. None)(7 := Some ''s1'', 8 := Some ''s2''), teardownCalls = []\<rparr>"
  by (simp add: two_subs0_def waiting0_eq subscribe_def options0_def startSubscription_register_def
     startSubscription_connected_def setTimeout_def map_get_def socket_send_def Let_def START_ACK_TIMEOUT_def)

text \<open>
  In \<open>rejected0\<close> the consumer has received the one error; the error has set off the
  teardown, which waits on promise 1; the failed waiter read from the record after that
  has been called; and the resumed teardown removes the record.
\<close>

lemma rejected0_eval:
  "observers rejected0 7 =
     \<lparr>closed = True,
      signals = [Error [ControlDetail CONNECTION_FAILED (DetailText ''UnauthorizedException'')]]\<rparr>"
  "teardownCalls rejected0 = [(''s1'', Some 1)]"
  "settled rejected0 =
     [(0, Rejected (Some (NonRetryableError ''UnauthorizedException''))), (1, Rejected None)]"
  "subscriptionObserverMap (unsubscribe_resume rejected0 ''s1'' (Rejected None)) = []"
  by (simp_all add: rejected0_def provider0_def subscribe_def options0_def
       startSubscription_register_def initializeWebSocketConnection_def
       initializeWebSocketConnection_connect_def awsRealTimeHeaderBasedAuth_def
       awsRealTimeApiKeyHeader_def initializeRetryableHandshake_def initializeHandshake_def
       initializeHandshake_catch_def NON_RETRYABLE_CODES_def
       initializeWebSocketConnection_done_def initializeWebSocketConnection_catch_def
       startSubscription_connected_def obs_error_def obs_complete_def call_teardown_def
       waitForSubscriptionToBeConnected_def map_get_def settle_def socket_close_def
       unsubscribe_resume_def removeSubscriptionObserver_def setTimeout_def map_delete_def
       Let_def)

subsection \<open>C1: authentication modes outside the handler table\<close>

text \<open>
  C1 (as amended). A request whose authentication type is absent (the only value outside
  the five keys that the option admits) does not make the header building fail: it
  resolves to the empty string. The connect path goes on to the handshake with that
  value as its header, and the subscribe path builds its header object from the other
  sources only.
\<close>

theorem absent_mode_empty_header:
  "authenticationType opts = None \<Longrightarrow>
     awsRealTimeHeaderBasedAuth col opts payload canonicalUri = Inr EmptyString
     \<and> initializeWebSocketConnection_connect col s opts =
         (Some \<lparr>hr_endpoint = (case appSyncGraphqlEndpoint opts of None \<Rightarrow> [] | Some e \<Rightarrow> e),
                hr_header = EmptyString, hr_payload = ''{}''\<rparr>, s)
     \<and> startSubscription_headers col opts =
         (case (case graphql_headers opts of None \<Rightarrow> Inr [] | Some g \<Rightarrow> g) of
            Inl e \<Rightarrow> Inl e
          | Inr g \<Rightarrow>
              Inr (spread
                     (spread (spread [] g)
                        (map (\<lambda>kv. (fst kv, Some (snd kv)))
                           (case additionalHeaders opts of None \<Rightarrow> [] | Some a \<Rightarrow> a)))
                     [(USER_AGENT_HEADER col, Some (userAgent col))]))"
  by (simp add: awsRealTimeHeaderBasedAuth_def initializeWebSocketConnection_connect_def
        startSubscription_headers_def split: sum.split option.split)

theorem absent_mode_empty_header_witness:
  "authenticationType options_no_mode = None
   \<and> awsRealTimeHeaderBasedAuth collaborators0 options_no_mode ''{}'' ''/connect'' = Inr EmptyString
   \<and> initializeWebSocketConnection_connect collaborators0 connecting0 options_no_mode =
       (Some \<lparr>hr_endpoint = ''https://example.com/graphql'', hr_header = EmptyString,
              hr_payload = ''{}''\<rparr>, connecting0)
   \<and> startSubscription_headers collaborators0 options_no_mode =
       Inr [(''x-amz-user-agent'', Some ''aws-amplify'')]"
  using absent_mode_empty_header [of options_no_mode collaborators0 "''{}''" "''/connect''" connecting0]
  by (simp add: options_no_mode_def options0_def collaborators0_def spread_def)

text \<open>
  The claim as stated fails for the options without an authentication type: the header
  building resolves (to the empty string) instead of failing, the first caller starts the
  handshake with it, and the transport is opened and \<^verbatim>\<open>connection_init\<close> is sent.
\<close>

theorem unsupported_mode_counterexample:
  "authenticationType options_no_mode = None
   \<and> awsRealTimeHeaderBasedAuth collaborators0 options_no_mode ''{}'' ''/connect'' = Inr EmptyString
   \<and> fst (initializeWebSocketConnection provider0) = Started 0
   \<and> fst (initializeWebSocketConnection_connect collaborators0 connecting0 options_no_mode) =
       Some \<lparr>hr_endpoint = ''https://example.com/graphql'', hr_header = EmptyString,
             hr_payload = ''{}''\<rparr>
   \<and> awsRealTimeSocket
        (snd (snd (initializeRetryableHandshake 100 jitter0
           (snd (initializeWebSocketConnection_connect collaborators0 connecting0 options_no_mode))
           [Acked None]))) =
       Some \<lparr>readyState = WS_OPEN, bufferedAmount = 0, sent = [ConnectionInit], closeCalls = []\<rparr>"
  by (simp add: options_no_mode_def options0_def awsRealTimeHeaderBasedAuth_def
        initializeWebSocketConnection_connect_def initializeWebSocketConnection_def
        provider0_def connecting0_def initializeRetryableHandshake_def initializeHandshake_def)

subsection \<open>C2: the failed waiter on the two ways from pending to failed\<close>

text \<open>
  C2 (the code departs from the claim). In \<open>early_unsub0\<close> the record \<open>s1\<close> is
  \<open>PENDING\<close>; it holds the identifier of its armed ack timer and the failed waiter of
  the unsubscribe that waits on promise 1. When the ack timer expires the record becomes
  \<open>FAILED\<close>, but nothing is settled: the waiter is not invoked, and the record written
  by \<^verbatim>\<open>_timeoutStartSubscriptionAck\<close> no longer holds it. On the other way to
  \<open>FAILED\<close>, a correlated \<^verbatim>\<open>error\<close> message, the same waiter is invoked.
\<close>

theorem ack_timeout_skips_failed_waiter:
  "map_get (subscriptionObserverMap early_unsub0) ''s1'' =
     Some \<lparr>observer = 9, query = ''{onCreate}'', variables = JObj [],
           subscriptionState = PENDING, subscriptionReadyCallback = Some 1,
           subscriptionFailedCallback = Some 1, startAckTimeoutId = Some 1\<rparr>
   \<and> timers early_unsub0 = [(1, 15000, StartAckTimeout ''s1'')]
   \<and> map_get (subscriptionObserverMap (fire_timer early_unsub0 1)) ''s1'' =
       Some \<lparr>observer = 9, query = ''{onCreate}'', variables = JObj [],
             subscriptionState = FAILED, subscriptionReadyCallback = None,
             subscriptionFailedCallback = None, startAckTimeoutId = None\<rparr>
   \<and> settled early_unsub0 = [(0, Resolved)]
   \<and> settled (fire_timer early_unsub0 1) = [(0, Resolved)]
   \<and> settled (handleIncomingSubscriptionMessage early_unsub0
        \<lparr>msg_id = Some ''s1'', msg_payload = None, msg_type = Some ''error''\<rparr>) =
       [(0, Resolved), (1, Rejected None)]"
  by (simp add: early_unsub0_eq fire_timer_def clearTimeout_def timeoutStartSubscriptionAck_def
        map_get_def handleIncomingSubscriptionMessage_def obs_error_def obs_complete_def settle_def
        Let_def)

subsection \<open>C3: unsubscribing a pending subscription\<close>

text \<open>
  C3 (the code departs from the claim). In \<open>pending0\<close> the record \<open>s1\<close> is \<open>PENDING\<close>
  and holds the identifier of its armed ack timer. The unsubscribe waits (promise 1) and
  sends nothing, but the record it writes no longer holds the timer: the timer stays
  armed while no record refers to it, and the start-ack that then arrives cannot cancel
  it.
\<close>

theorem unsubscribe_pending_drops_ack_timer:
  "map_option subscriptionState (map_get (subscriptionObserverMap pending0) ''s1'') = Some PENDING
   \<and> Option.bind (map_get (subscriptionObserverMap pending0) ''s1'') startAckTimeoutId = Some 1
   \<and> armed pending0 1
   \<and> unsubscribe (obs_close pending0 7) ''s1'' = (Some 1, waiting0)
   \<and> awsRealTimeSocket waiting0 = awsRealTimeSocket pending0
   \<and> armed waiting0 1
   \<and> map fst (subscriptionObserverMap waiting0) = [''s1'']
   \<and> Option.bind (map_get (subscriptionObserverMap waiting0) ''s1'') startAckTimeoutId = None
   \<and> armed (handleIncomingSubscriptionMessage waiting0
        \<lparr>msg_id = Some ''s1'', msg_payload = None, msg_type = Some ''start_ack''\<rparr>) 1"
proof -
  have w: "unsubscribe (obs_close pending0 7) ''s1'' = (Some 1, waiting0)"
    by (simp add: waiting0_eq pending0_eq unsubscribe_def waitForSubscriptionToBeConnected_def
       obs_close_def map_get_def Let_def)
  show ?thesis
    by (simp add: w) (simp add: waiting0_eq pending0_eq armed_def map_get_def
        handleIncomingSubscriptionMessage_def settle_def Let_def)
qed

text \<open>
  What holds in every state: the unsubscribe of a \<open>PENDING\<close> record stops at a new
  promise without touching the socket, and the resumed teardown touches the socket only
  for a resolved wait on a \<open>CONNECTED\<close> record.
\<close>

lemma unsubscribe_pending_waits:
  "map_get (subscriptionObserverMap s) sid = Some r \<Longrightarrow> subscriptionState r = PENDING \<Longrightarrow>
     fst (unsubscribe s sid) = Some (nextPromiseId s)
     \<and> awsRealTimeSocket (snd (unsubscribe s sid)) = awsRealTimeSocket s
     \<and> map_option subscriptionState (map_get (subscriptionObserverMap (snd (unsubscribe s sid))) sid)
         = Some PENDING"
  by (simp add: unsubscribe_def waitForSubscriptionToBeConnected_def Let_def map_get_map_set)

lemma unsubscribe_resume_stop_only_connected:
  "awsRealTimeSocket (unsubscribe_resume s sid outcome) \<noteq> awsRealTimeSocket s \<Longrightarrow>
     outcome = Resolved
     \<and> map_option subscriptionState (map_get (subscriptionObserverMap s) sid) = Some CONNECTED"
  by (auto simp: unsubscribe_resume_def removeSubscriptionObserver_def setTimeout_def
        split: settlement.splits option.splits SUBSCRIPTION_STATUS.splits)

subsection \<open>C4: coalescing of connection requests\<close>

text \<open>
  C4. A call of the connection-establishment operation returns at once, leaving the
  provider as it is, when the status is \<open>READY\<close>. When the status is \<open>CONNECTING\<close> the
  call only adds its promise to the waiters (it is \<open>Joined\<close>, not \<open>Started\<close>: no
  handshake is begun, the status stays). Only a call that finds the status \<open>CLOSED\<close>
  sets it to \<open>CONNECTING\<close> and begins the handshake. When the handshake ends, every
  waiter is settled with its outcome, in order (resolved, or rejected with the error the
  handshake ended with), and the waiters are emptied; the status is then \<open>READY\<close>,
  respectively \<open>CLOSED\<close> with the socket dropped.
\<close>

theorem initializeWebSocketConnection_coalesces:
  "(socketStatus s = READY \<longrightarrow> initializeWebSocketConnection s = (Returned, s))
   \<and> (socketStatus s = CONNECTING \<longrightarrow>
        initializeWebSocketConnection s =
          (Joined (nextPromiseId s),
           s\<lparr>promiseArray := promiseArray s @ [nextPromiseId s],
              nextPromiseId := Suc (nextPromiseId s)\<rparr>))
   \<and> (socketStatus s = CLOSED \<longrightarrow>
        initializeWebSocketConnection s =
          (Started (nextPromiseId s),
           s\<lparr>promiseArray := promiseArray s @ [nextPromiseId s],
              nextPromiseId := Suc (nextPromiseId s),
              socketStatus := CONNECTING\<rparr>))
   \<and> initializeWebSocketConnection_done s (Inr ()) =
        s\<lparr>settled := settled s @ map (\<lambda>p. (p, Resolved)) (promiseArray s),
           socketStatus := READY, promiseArray := []\<rparr>
   \<and> settled (initializeWebSocketConnection_done s (Inl err)) =
        settled s @ map (\<lambda>p. (p, Rejected (Some err))) (promiseArray s)
   \<and> promiseArray (initializeWebSocketConnection_done s (Inl err)) = []
   \<and> socketStatus (initializeWebSocketConnection_done s (Inl err)) = CLOSED
   \<and> awsRealTimeSocket (initializeWebSocketConnection_done s (Inl err)) = None"
  by (simp add: initializeWebSocketConnection_def initializeWebSocketConnection_done_def
        initializeWebSocketConnection_catch_def fold_settle Let_def split: option.split)

theorem initializeWebSocketConnection_coalesces_witness:
  "socketStatus connected0 = READY
   \<and> initializeWebSocketConnection connected0 = (Returned, connected0)
   \<and> socketStatus connecting0 = CONNECTING
   \<and> fst (initializeWebSocketConnection connecting0) = Joined 1
   \<and> promiseArray (snd (initializeWebSocketConnection connecting0)) = [0, 1]
   \<and> socketStatus (snd (initializeWebSocketConnection connecting0)) = CONNECTING
   \<and> socketStatus provider0 = CLOSED
   \<and> fst (initializeWebSocketConnection provider0) = Started 0
   \<and> settled (initializeWebSocketConnection_done (snd (initializeWebSocketConnection connecting0))
        (Inr ())) = [(0, Resolved), (1, Resolved)]
   \<and> settled (initializeWebSocketConnection_done (snd (initializeWebSocketConnection connecting0))
        (Inl (NonRetryableError ''UnauthorizedException''))) =
       [(0, Rejected (Some (NonRetryableError ''UnauthorizedException''))),
        (1, Rejected (Some (NonRetryableError ''UnauthorizedException'')))]"
  using initializeWebSocketConnection_coalesces [of connected0]
        initializeWebSocketConnection_coalesces [of connecting0]
        initializeWebSocketConnection_coalesces [of provider0]
        initializeWebSocketConnection_coalesces
          [of "snd (initializeWebSocketConnection connecting0)" "NonRetryableError ''UnauthorizedException''"]
  by (simp add: connecting0_simps connected0_eq provider0_def)

subsection \<open>C5: where the subscription id comes from\<close>

text \<open>
  C5 (as amended). For every subscribe request with an endpoint, the subscription id is
  the value generated by \<^verbatim>\<open>uuid()\<close> inside \<^verbatim>\<open>subscribe\<close>, not a value of the
  caller: it is the id the teardown is bound to, the key of the \<open>PENDING\<close> record, and
  the id of the start message and of the stop message.
\<close>

theorem subscription_id_generated:
  "appSyncGraphqlEndpoint opts = Some endpoint \<Longrightarrow> endpoint \<noteq> [] \<Longrightarrow>
     fst (subscribe s uuid topics (Some opts) ob) = Some uuid
     \<and> map_get (subscriptionObserverMap (snd (subscribe s uuid topics (Some opts) ob))) uuid =
         Some \<lparr>observer = ob,
               query = (case opt_query opts of None \<Rightarrow> [] | Some q \<Rightarrow> q),
               variables = (case opt_variables opts of None \<Rightarrow> JObj [] | Some v \<Rightarrow> v),
               subscriptionState = PENDING, subscriptionReadyCallback = None,
               subscriptionFailedCallback = None, startAckTimeoutId = None\<rparr>
     \<and> (\<forall>ws. awsRealTimeSocket s' = Some ws \<longrightarrow>
           awsRealTimeSocket (startSubscription_connected s' opts ob uuid d h (Inr ())) =
             Some (socket_send ws (Start uuid d h)))
     \<and> (\<forall>ws. awsRealTimeSocket s' = Some ws \<and> readyState ws = WS_OPEN \<and> socketStatus s' = READY \<longrightarrow>
           awsRealTimeSocket (sendUnsubscriptionMessage s' uuid) =
             Some (socket_send ws (Stop uuid)))"
  by (simp add: subscribe_def startSubscription_register_def map_get_map_set
        startSubscription_connected_def setTimeout_def sendUnsubscriptionMessage_def Let_def)

theorem subscription_id_generated_witness:
  "appSyncGraphqlEndpoint options0 = Some ''https://example.com/graphql''
   \<and> ''https://example.com/graphql'' \<noteq> []
   \<and> fst (subscribe connected0 ''s1'' [''topic''] (Some options0) 7) = Some ''s1''
   \<and> map_option subscriptionState
        (map_get (subscriptionObserverMap
           (snd (subscribe connected0 ''s1'' [''topic''] (Some options0) 7))) ''s1'') = Some PENDING
   \<and> map_option sent
        (awsRealTimeSocket (startSubscription_connected connected0 options0 7 ''s1'' ''{}'' [] (Inr ())))
       = Some [ConnectionInit, Start ''s1'' ''{}'' []]
   \<and> map_option sent (awsRealTimeSocket (sendUnsubscriptionMessage connected0 ''s1''))
       = Some [ConnectionInit, Stop ''s1'']"
  using subscription_id_generated
          [where opts = options0 and endpoint = "''https://example.com/graphql''"
             and s = connected0 and uuid = "''s1''" and topics = "[''topic'']" and ob = 7
             and s' = connected0 and d = "''{}''" and h = "[]"]
  by (simp add: options0_def connected0_eq socket_send_def)

text \<open>
  The claim as stated fails: two subscribe calls with the same arguments of the caller
  (topics, options, observer) on the same provider get different ids, the two values
  \<^verbatim>\<open>uuid()\<close> returned.
\<close>

theorem subscription_id_counterexample:
  "fst (subscribe connected0 ''s1'' [''topic''] (Some options0) 7) = Some ''s1''
   \<and> fst (subscribe connected0 ''s2'' [''topic''] (Some options0) 7) = Some ''s2''
   \<and> map fst (subscriptionObserverMap (snd (subscribe connected0 ''s1'' [''topic''] (Some options0) 7)))
       = [''s1'']
   \<and> map fst (subscriptionObserverMap (snd (subscribe connected0 ''s2'' [''topic''] (Some options0) 7)))
       = [''s2'']"
  by (simp add: subscribe_def options0_def startSubscription_register_def connected0_eq)

subsection \<open>C6: which handshake failures are retried\<close>

text \<open>
  C6. The non-retryable codes are 400, 401 and 403. A handshake attempt that fails with
  a \<^verbatim>\<open>connection_error\<close> carrying one of them ends the retry loop at once with a
  \<open>NonRetryableError\<close>: no delay, no further attempt, whatever the transport would do
  next. A \<^verbatim>\<open>connection_error\<close> with any other code, or with none, a transport that
  closes before or after it opened, and a missing ack are each followed, after a backoff
  delay, by the next attempt. Every backoff delay is at most 5000 ms.
\<close>

theorem handshake_failure_retry_decision:
  "set NON_RETRYABLE_CODES = {400, 401, 403}
   \<and> (code \<in> set NON_RETRYABLE_CODES \<longrightarrow>
        jitteredExponentialRetry initializeHandshake MAX_DELAY_MS base jit k s
          (ConnectionErrorMsg ty (Some code) # evs) =
        (Some (Inl (NonRetryableError (case ty of None \<Rightarrow> [] | Some t \<Rightarrow> t))), [],
         snd (initializeHandshake s (ConnectionErrorMsg ty (Some code)))))
   \<and> (code \<notin> set NON_RETRYABLE_CODES \<longrightarrow>
        jitteredExponentialRetry initializeHandshake MAX_DELAY_MS base jit k s
          (ConnectionErrorMsg ty (Some code) # evs) =
        (case jitteredExponentialRetry initializeHandshake MAX_DELAY_MS base jit (Suc k)
                (snd (initializeHandshake s (ConnectionErrorMsg ty (Some code)))) evs of
           (r, ds, s') \<Rightarrow> (r, backoff_delay MAX_DELAY_MS base k (jit k) # ds, s')))
   \<and> (ev \<in> {OpenFailed, NoAck, ClosedBeforeAck event, ConnectionErrorMsg ty None} \<longrightarrow>
        jitteredExponentialRetry initializeHandshake MAX_DELAY_MS base jit k s (ev # evs) =
        (case jitteredExponentialRetry initializeHandshake MAX_DELAY_MS base jit (Suc k)
                (snd (initializeHandshake s ev)) evs of
           (r, ds, s') \<Rightarrow> (r, backoff_delay MAX_DELAY_MS base k (jit k) # ds, s')))
   \<and> backoff_delay MAX_DELAY_MS base k (jit k) \<le> 5000"
proof -
  have codes: "set NON_RETRYABLE_CODES = {400, 401, 403}"
    by (simp add: NON_RETRYABLE_CODES_def)
  have abort: "code \<in> set NON_RETRYABLE_CODES \<longrightarrow>
        jitteredExponentialRetry initializeHandshake MAX_DELAY_MS base jit k s
          (ConnectionErrorMsg ty (Some code) # evs) =
        (Some (Inl (NonRetryableError (case ty of None \<Rightarrow> [] | Some t \<Rightarrow> t))), [],
         snd (initializeHandshake s (ConnectionErrorMsg ty (Some code))))"
    by (simp add: initializeHandshake_def initializeHandshake_catch_def)
  have retry: "code \<notin> set NON_RETRYABLE_CODES \<longrightarrow>
        jitteredExponentialRetry initializeHandshake MAX_DELAY_MS base jit k s
          (ConnectionErrorMsg ty (Some code) # evs) =
        (case jitteredExponentialRetry initializeHandshake MAX_DELAY_MS base jit (Suc k)
                (snd (initializeHandshake s (ConnectionErrorMsg ty (Some code)))) evs of
           (r, ds, s') \<Rightarrow> (r, backoff_delay MAX_DELAY_MS base k (jit k) # ds, s'))"
    by (simp add: initializeHandshake_def initializeHandshake_catch_def)
  have other: "ev \<in> {OpenFailed, NoAck, ClosedBeforeAck event, ConnectionErrorMsg ty None} \<longrightarrow>
        jitteredExponentialRetry initializeHandshake MAX_DELAY_MS base jit k s (ev # evs) =
        (case jitteredExponentialRetry initializeHandshake MAX_DELAY_MS base jit (Suc k)
                (snd (initializeHandshake s ev)) evs of
           (r, ds, s') \<Rightarrow> (r, backoff_delay MAX_DELAY_MS base k (jit k) # ds, s'))"
    by (auto simp: initializeHandshake_def initializeHandshake_catch_def NON_RETRYABLE_CODES_def)
  from codes abort retry other backoff_delay_capped show ?thesis by blast
qed

theorem handshake_failure_retry_decision_witness:
  "(401::int) \<in> set NON_RETRYABLE_CODES
   \<and> fst (initializeRetryableHandshake 100 jitter7 provider0
        [ConnectionErrorMsg (Some ''UnauthorizedException'') (Some 401), Acked None]) =
       Some (Inl (NonRetryableError ''UnauthorizedException''))
   \<and> fst (snd (initializeRetryableHandshake 100 jitter7 provider0
        [ConnectionErrorMsg (Some ''UnauthorizedException'') (Some 401), Acked None])) = []
   \<and> (500::int) \<notin> set NON_RETRYABLE_CODES
   \<and> fst (initializeRetryableHandshake 100 jitter7 provider0
        [ConnectionErrorMsg (Some ''InternalFailure'') (Some 500), Acked None]) = Some (Inr ())
   \<and> fst (snd (initializeRetryableHandshake 100 jitter7 provider0
        [ConnectionErrorMsg (Some ''InternalFailure'') (Some 500), Acked None])) = [107]
   \<and> NoAck \<in> {OpenFailed, NoAck, ClosedBeforeAck [], ConnectionErrorMsg None None}
   \<and> fst (initializeRetryableHandshake 100 jitter7 provider0 [NoAck, Acked None]) = Some (Inr ())
   \<and> fst (snd (initializeRetryableHandshake 100 jitter7 provider0 [NoAck, Acked None])) = [107]"
  using handshake_failure_retry_decision
          [where code = 401 and base = 100 and jit = jitter7 and k = 0 and s = provider0
             and ty = "Some ''UnauthorizedException''" and evs = "[Acked None]"
             and ev = NoAck and event = "[]"]
        handshake_failure_retry_decision
          [where code = 500 and base = 100 and jit = jitter7 and k = 0 and s = provider0
             and ty = "Some ''InternalFailure''" and evs = "[Acked None]"
             and ev = NoAck and event = "[]"]
  by (simp add: initializeRetryableHandshake_def initializeHandshake_def
        initializeHandshake_catch_def NON_RETRYABLE_CODES_def backoff_delay_def MAX_DELAY_MS_def
        jitter7_def)

subsection \<open>C7: keep-alive expiry\<close>

text \<open>
  C7. When the keep-alive timer expires, every registered subscription whose observer
  is still open has exactly one error, the timeout disconnect, appended to what its
  consumer has received (and its observer is then closed); an observer that was already
  closed receives nothing; the registry is empty; \<^verbatim>\<open>close\<close> has been called on the
  socket, if there is one; the status is \<open>CLOSED\<close>.
\<close>

theorem keep_alive_expiry_disconnects:
  "(\<forall>kv \<in> set (subscriptionObserverMap s).
       \<not> closed (observers s (observer (snd kv))) \<longrightarrow>
       observers (run_timer s KeepAliveTimeout) (observer (snd kv)) =
         \<lparr>closed = True,
          signals = signals (observers s (observer (snd kv))) @ [Error [ControlText TIMEOUT_DISCONNECT]]\<rparr>)
   \<and> (\<forall>ob. closed (observers s ob) \<longrightarrow> observers (run_timer s KeepAliveTimeout) ob = observers s ob)
   \<and> subscriptionObserverMap (run_timer s KeepAliveTimeout) = []
   \<and> awsRealTimeSocket (run_timer s KeepAliveTimeout) =
       map_option (\<lambda>ws. socket_close ws None) (awsRealTimeSocket s)
   \<and> socketStatus (run_timer s KeepAliveTimeout) = CLOSED"
proof -
  let ?f = "\<lambda>kv st. if \<not> closed (observers st (observer (snd kv)))
                  then obs_error st (observer (snd kv)) [ControlText TIMEOUT_DISCONNECT] else st"
  let ?s1 = "fold ?f (subscriptionObserverMap s) s"
  have obs: "observers (errorDisconnect s TIMEOUT_DISCONNECT) = observers ?s1"
    by (simp add: errorDisconnect_def Let_def split: option.split)
  have sock: "awsRealTimeSocket ?s1 = awsRealTimeSocket s"
    by (rule forEach_error_socket)
  show ?thesis
  proof (intro conjI ballI allI impI)
    fix kv assume "kv \<in> set (subscriptionObserverMap s)"
      and "\<not> closed (observers s (observer (snd kv)))"
    then show "observers (run_timer s KeepAliveTimeout) (observer (snd kv)) =
         \<lparr>closed = True,
          signals = signals (observers s (observer (snd kv))) @ [Error [ControlText TIMEOUT_DISCONNECT]]\<rparr>"
      by (simp add: obs forEach_error_observers)
  next
    fix ob assume "closed (observers s ob)"
    then show "observers (run_timer s KeepAliveTimeout) ob = observers s ob"
      by (simp add: obs forEach_error_observers)
  next
    show "subscriptionObserverMap (run_timer s KeepAliveTimeout) = []"
      by (simp add: errorDisconnect_def Let_def split: option.split)
  next
    show "awsRealTimeSocket (run_timer s KeepAliveTimeout) =
       map_option (\<lambda>ws. socket_close ws None) (awsRealTimeSocket s)"
      using sock by (simp add: errorDisconnect_def Let_def split: option.split)
  next
    show "socketStatus (run_timer s KeepAliveTimeout) = CLOSED"
      by (simp add: errorDisconnect_def Let_def split: option.split)
  qed
qed

theorem keep_alive_expiry_disconnects_witness:
  "(''s2'', \<lparr>observer = 8, query = ''{onCreate}'', variables = JObj [],
            subscriptionState = PENDING, subscriptionReadyCallback = None,
            subscriptionFailedCallback = None, startAckTimeoutId = Some 2\<rparr>)
     \<in> set (subscriptionObserverMap two_subs0)
   \<and> \<not> closed (observers two_subs0 8)
   \<and> observers (run_timer two_subs0 KeepAliveTimeout) 8 =
       \<lparr>closed = True, signals = [Error [ControlText TIMEOUT_DISCONNECT]]\<rparr>
   \<and> closed (observers two_subs0 7)
   \<and> observers (run_timer two_subs0 KeepAliveTimeout) 7 = \<lparr>closed = True, signals = []\<rparr>
   \<and> subscriptionObserverMap (run_timer two_subs0 KeepAliveTimeout) = []
   \<and> map_option closeCalls (awsRealTimeSocket (run_timer two_subs0 KeepAliveTimeout)) = Some [None]
   \<and> socketStatus (run_timer two_subs0 KeepAliveTimeout) = CLOSED"
  using keep_alive_expiry_disconnects [of two_subs0]
  by (simp add: two_subs0_eq socket_close_def)

subsection \<open>C8: expiry of the start-ack timer\<close>

text \<open>
  C8 (as amended). The ack timer is armed for 15000 ms when the start message is sent.
  When it expires for a subscription that is registered, the record becomes \<open>FAILED\<close>.
  If the observer is still open, the consumer receives exactly one error, the
  subscription timeout with the query and variables, and nothing after it: the error
  closes the observer, so the completion sent next is dropped. The error sets off the
  teardown of the observer, which (being the one of this subscription) waits on nothing,
  and the resumed teardown sends nothing and removes the record. If the observer is
  already closed, the consumer receives nothing.
\<close>

theorem start_ack_timeout:
  "map_get (subscriptionObserverMap s) sid = Some r \<Longrightarrow>
     map_get (subscriptionObserverMap (run_timer s (StartAckTimeout sid))) sid =
       Some \<lparr>observer = observer r, query = query r, variables = variables r,
             subscriptionState = FAILED, subscriptionReadyCallback = None,
             subscriptionFailedCallback = None, startAckTimeoutId = None\<rparr>
     \<and> (\<not> closed (observers s (observer r)) \<longrightarrow>
          observers (run_timer s (StartAckTimeout sid)) (observer r) =
            \<lparr>closed = True,
             signals = signals (observers s (observer r)) @
               [Error [SubscriptionTimeoutText (query r) (variables r)]]\<rparr>
          \<and> (teardown s (observer r) = Some sid \<longrightarrow>
                teardownCalls (run_timer s (StartAckTimeout sid)) =
                  teardownCalls s @ [(sid, None)])
          \<and> map_get (subscriptionObserverMap
                (unsubscribe_resume (run_timer s (StartAckTimeout sid)) sid Resolved)) sid = None
          \<and> awsRealTimeSocket
                (unsubscribe_resume (run_timer s (StartAckTimeout sid)) sid Resolved) =
              awsRealTimeSocket s)
     \<and> (closed (observers s (observer r)) \<longrightarrow>
          observers (run_timer s (StartAckTimeout sid)) = observers s)
     \<and> timers (startSubscription_connected s' opts ob sid d h (Inr ())) =
         timers s' @ [(nextTimerId s', 15000, StartAckTimeout sid)]"
proof -
  assume r: "map_get (subscriptionObserverMap s) sid = Some r"
  let ?failed = "\<lparr>observer = observer r, query = query r, variables = variables r,
             subscriptionState = FAILED, subscriptionReadyCallback = None,
             subscriptionFailedCallback = None, startAckTimeoutId = None\<rparr>"
  let ?w = "s\<lparr>subscriptionObserverMap := map_set sid ?failed (subscriptionObserverMap s)\<rparr>"
  let ?e = "s\<lparr>subscriptionObserverMap := map_set sid ?failed (subscriptionObserverMap s),
              observers := (observers s)
                (observer r := \<lparr>closed = True,
                   signals = signals (observers s (observer r)) @
                     [Error [SubscriptionTimeoutText (query r) (variables r)]]\<rparr>)\<rparr>"
  let ?s1 = "run_timer s (StartAckTimeout sid)"
  have shut_eq: "closed (observers s (observer r)) \<Longrightarrow> ?s1 = ?w"
    using r by (simp add: timeoutStartSubscriptionAck_def Let_def)
  have open_eq: "\<not> closed (observers s (observer r)) \<Longrightarrow> ?s1 = call_teardown ?e (observer r)"
    using r by (simp add: timeoutStartSubscriptionAck_def Let_def obs_error_def obs_complete_def
        call_teardown_frame)
  have failed_e: "map_get (subscriptionObserverMap ?e) sid = Some ?failed"
    by (simp add: map_get_map_set)
  then have keep: "map_get (subscriptionObserverMap (call_teardown ?e (observer r))) sid =
      Some ?failed"
    by (simp add: call_teardown_keeps_settled_record)
  have rec: "map_get (subscriptionObserverMap ?s1) sid = Some ?failed"
  proof (cases "closed (observers s (observer r))")
    case True
    with shut_eq show ?thesis by (simp add: map_get_map_set)
  next
    case False
    with open_eq keep show ?thesis by simp
  qed
  have sock: "awsRealTimeSocket ?s1 = awsRealTimeSocket s"
  proof (cases "closed (observers s (observer r))")
    case True
    with shut_eq show ?thesis by simp
  next
    case False
    with open_eq show ?thesis by (simp add: call_teardown_frame)
  qed
  have "open": "\<not> closed (observers s (observer r)) \<longrightarrow>
          observers ?s1 (observer r) =
            \<lparr>closed = True,
             signals = signals (observers s (observer r)) @
               [Error [SubscriptionTimeoutText (query r) (variables r)]]\<rparr>"
    using open_eq by (simp add: call_teardown_frame)
  have calls: "\<not> closed (observers s (observer r)) \<longrightarrow> teardown s (observer r) = Some sid \<longrightarrow>
          teardownCalls ?s1 = teardownCalls s @ [(sid, None)]"
  proof (intro impI)
    assume o: "\<not> closed (observers s (observer r))" and t: "teardown s (observer r) = Some sid"
    from t have "teardown ?e (observer r) = Some sid" by simp
    moreover from failed_e
    have "map_option subscriptionState (map_get (subscriptionObserverMap ?e) sid) \<noteq> Some PENDING"
      by simp
    ultimately have "call_teardown ?e (observer r) =
        ?e\<lparr>teardownCalls := teardownCalls ?e @ [(sid, None)]\<rparr>"
      by (rule call_teardown_not_pending)
    with o open_eq show "teardownCalls ?s1 = teardownCalls s @ [(sid, None)]" by simp
  qed
  have shut: "closed (observers s (observer r)) \<longrightarrow> observers ?s1 = observers s"
    using shut_eq by simp
  have resume: "unsubscribe_resume ?s1 sid Resolved = removeSubscriptionObserver ?s1 sid"
    using rec by (simp add: unsubscribe_resume_def)
  have gone: "map_get (subscriptionObserverMap (removeSubscriptionObserver ?s1 sid)) sid = None"
    by (simp add: removeSubscriptionObserver_def setTimeout_def map_get_map_delete)
  have sock': "awsRealTimeSocket (removeSubscriptionObserver ?s1 sid) = awsRealTimeSocket s"
    using sock by (simp add: removeSubscriptionObserver_def setTimeout_def)
  have arm: "timers (startSubscription_connected s' opts ob sid d h (Inr ())) =
         timers s' @ [(nextTimerId s', 15000, StartAckTimeout sid)]"
    by (simp add: startSubscription_connected_def setTimeout_def START_ACK_TIMEOUT_def Let_def
        split: option.split)
  from rec "open" calls shut resume gone sock' arm show ?thesis by simp
qed

theorem start_ack_timeout_witness:
  "map_get (subscriptionObserverMap pending0) ''s1'' =
     Some \<lparr>observer = 7, query = ''{onCreate}'', variables = JObj [],
           subscriptionState = PENDING, subscriptionReadyCallback = None,
           subscriptionFailedCallback = None, startAckTimeoutId = Some 1\<rparr>
   \<and> \<not> closed (observers pending0 7)
   \<and> teardown pending0 7 = Some ''s1''
   \<and> map_option subscriptionState
        (map_get (subscriptionObserverMap (run_timer pending0 (StartAckTimeout ''s1''))) ''s1'')
       = Some FAILED
   \<and> observers (run_timer pending0 (StartAckTimeout ''s1'')) 7 =
       \<lparr>closed = True, signals = [Error [SubscriptionTimeoutText ''{onCreate}'' (JObj [])]]\<rparr>
   \<and> teardownCalls (run_timer pending0 (StartAckTimeout ''s1'')) = [(''s1'', None)]
   \<and> map_get (subscriptionObserverMap
        (unsubscribe_resume (run_timer pending0 (StartAckTimeout ''s1'')) ''s1'' Resolved)) ''s1''
       = None
   \<and> map_get (subscriptionObserverMap waiting0) ''s1'' =
       Some \<lparr>observer = 7, query = ''{onCreate}'', variables = JObj [],
             subscriptionState = PENDING, subscriptionReadyCallback = Some 1,
             subscriptionFailedCallback = Some 1, startAckTimeoutId = None\<rparr>
   \<and> closed (observers waiting0 7)
   \<and> observers (run_timer waiting0 (StartAckTimeout ''s1'')) 7 = \<lparr>closed = True, signals = []\<rparr>
   \<and> timers (startSubscription_connected connected0 options0 7 ''s1'' ''{}'' [] (Inr ())) =
       [(1, 15000, StartAckTimeout ''s1'')]"
  using start_ack_timeout
          [where s = pending0 and sid = "''s1''" and s' = connected0 and opts = options0
             and ob = 7 and d = "''{}''" and h = "[]"
             and r = "\<lparr>observer = 7, query = ''{onCreate}'', variables = JObj [],
                       subscriptionState = PENDING, subscriptionReadyCallback = None,
                       subscriptionFailedCallback = None, startAckTimeoutId = Some 1\<rparr>"]
        start_ack_timeout
          [where s = waiting0 and sid = "''s1''" and s' = connected0 and opts = options0
             and ob = 7 and d = "''{}''" and h = "[]"
             and r = "\<lparr>observer = 7, query = ''{onCreate}'', variables = JObj [],
                       subscriptionState = PENDING, subscriptionReadyCallback = Some 1,
                       subscriptionFailedCallback = Some 1, startAckTimeoutId = None\<rparr>"]
  by (simp add: pending0_eq waiting0_eq connected0_eq map_get_def)

text \<open>
  The claim as stated fails twice. In \<open>pending0\<close> the observer is open: when timer 1
  expires the consumer receives the timeout error and no completion signal after it. In
  \<open>early_unsub0\<close> the start message of \<open>s1\<close> was sent and no ack arrives, but the
  consumer had unsubscribed before: when timer 1 expires the consumer receives nothing,
  and the record is still registered.
\<close>

theorem start_ack_timeout_counterexample:
  "timers pending0 = [(1, 15000, StartAckTimeout ''s1'')]
   \<and> signals (observers pending0 7) = []
   \<and> signals (observers (fire_timer pending0 1) 7) =
       [Error [SubscriptionTimeoutText ''{onCreate}'' (JObj [])]]
   \<and> map_get (subscriptionObserverMap early_unsub0) ''s1'' =
       Some \<lparr>observer = 9, query = ''{onCreate}'', variables = JObj [],
             subscriptionState = PENDING, subscriptionReadyCallback = Some 1,
             subscriptionFailedCallback = Some 1, startAckTimeoutId = Some 1\<rparr>
   \<and> timers early_unsub0 = [(1, 15000, StartAckTimeout ''s1'')]
   \<and> signals (observers (fire_timer early_unsub0 1) 9) = []
   \<and> map fst (subscriptionObserverMap (fire_timer early_unsub0 1)) = [''s1'']"
  by (simp add: pending0_eq early_unsub0_eq fire_timer_def clearTimeout_def
        timeoutStartSubscriptionAck_def map_get_def obs_error_def obs_complete_def
        call_teardown_def waitForSubscriptionToBeConnected_def Let_def)

subsection \<open>C9: routing of data messages\<close>

text \<open>
  C9 (as amended). For every inbound message of type \<^verbatim>\<open>data\<close> that carries a
  subscription id and a payload whose \<^verbatim>\<open>data\<close> is truthy, the consumer of the record
  registered under the id receives the payload if and only if there is such a record and
  its observer is still open; the state of the record is not consulted, and nothing else
  changes. When no record is registered under the id, when the observer of the record is
  closed, or when the payload has no truthy \<^verbatim>\<open>data\<close>, the message is dropped and the
  provider is left as it is.
\<close>

theorem data_message_routing:
  "msg_type m = Some (wire GQL_DATA) \<Longrightarrow> msg_id m = Some sid \<Longrightarrow>
     (\<forall>payload r. msg_payload m = Some payload \<and> truthy (get_prop (Some payload) ''data'')
         \<and> map_get (subscriptionObserverMap s) sid = Some r \<longrightarrow>
         (\<not> closed (observers s (observer r)) \<longrightarrow>
            handleIncomingSubscriptionMessage s m =
              s\<lparr>observers := (observers s)
                   (observer r := (observers s (observer r))
                      \<lparr>signals := signals (observers s (observer r)) @ [Next payload]\<rparr>)\<rparr>)
         \<and> (closed (observers s (observer r)) \<longrightarrow> handleIncomingSubscriptionMessage s m = s))
     \<and> (map_get (subscriptionObserverMap s) sid = None \<longrightarrow>
          handleIncomingSubscriptionMessage s m = s)
     \<and> (\<not> truthy (get_prop (msg_payload m) ''data'') \<longrightarrow>
          handleIncomingSubscriptionMessage s m = s)"
  by (auto simp: handleIncomingSubscriptionMessage_def obs_next_def Let_def
        dest: truthy_get_prop split: option.splits)

theorem data_message_routing_witness:
  "msg_type \<lparr>msg_id = Some ''s1'', msg_payload = Some (JObj [(''data'', JObj [])]),
             msg_type = Some ''data''\<rparr> = Some (wire GQL_DATA)
   \<and> truthy (get_prop (Some (JObj [(''data'', JObj [])])) ''data'')
   \<and> \<not> closed (observers pending0 7)
   \<and> observers (handleIncomingSubscriptionMessage pending0
        \<lparr>msg_id = Some ''s1'', msg_payload = Some (JObj [(''data'', JObj [])]),
         msg_type = Some ''data''\<rparr>) 7 =
       \<lparr>closed = False, signals = [Next (JObj [(''data'', JObj [])])]\<rparr>
   \<and> closed (observers waiting0 7)
   \<and> handleIncomingSubscriptionMessage waiting0
        \<lparr>msg_id = Some ''s1'', msg_payload = Some (JObj [(''data'', JObj [])]),
         msg_type = Some ''data''\<rparr> = waiting0
   \<and> map_get (subscriptionObserverMap pending0) ''s9'' = None
   \<and> handleIncomingSubscriptionMessage pending0
        \<lparr>msg_id = Some ''s9'', msg_payload = Some (JObj [(''data'', JObj [])]),
         msg_type = Some ''data''\<rparr> = pending0
   \<and> \<not> truthy (get_prop (Some (JObj [(''data'', JNull)])) ''data'')
   \<and> handleIncomingSubscriptionMessage pending0
        \<lparr>msg_id = Some ''s1'', msg_payload = Some (JObj [(''data'', JNull)]),
         msg_type = Some ''data''\<rparr> = pending0"
  using data_message_routing
          [where m = "\<lparr>msg_id = Some ''s1'', msg_payload = Some (JObj [(''data'', JObj [])]),
                        msg_type = Some ''data''\<rparr>" and sid = "''s1''" and s = pending0]
        data_message_routing
          [where m = "\<lparr>msg_id = Some ''s1'', msg_payload = Some (JObj [(''data'', JObj [])]),
                        msg_type = Some ''data''\<rparr>" and sid = "''s1''" and s = waiting0]
        data_message_routing
          [where m = "\<lparr>msg_id = Some ''s9'', msg_payload = Some (JObj [(''data'', JObj [])]),
                        msg_type = Some ''data''\<rparr>" and sid = "''s9''" and s = pending0]
        data_message_routing
          [where m = "\<lparr>msg_id = Some ''s1'', msg_payload = Some (JObj [(''data'', JNull)]),
                        msg_type = Some ''data''\<rparr>" and sid = "''s1''" and s = pending0]
  by (simp add: map_get_def pending0_eq waiting0_eq)

text \<open>
  The claim as stated fails twice. For a \<^verbatim>\<open>data\<close> message whose payload's \<^verbatim>\<open>data\<close>
  is \<^verbatim>\<open>null\<close>, the record \<open>s1\<close> of \<open>pending0\<close> is registered with its observer, and
  nothing is delivered. For a \<^verbatim>\<open>data\<close> message with truthy \<^verbatim>\<open>data\<close>, the record
  \<open>s1\<close> of \<open>waiting0\<close> is registered with its observer, but the consumer has
  unsubscribed, and nothing is delivered.
\<close>

theorem data_message_counterexample:
  "msg_type \<lparr>msg_id = Some ''s1'', msg_payload = Some (JObj [(''data'', JNull)]),
            msg_type = Some ''data''\<rparr> = Some (wire GQL_DATA)
   \<and> map_get (subscriptionObserverMap pending0) ''s1'' =
        Some \<lparr>observer = 7, query = ''{onCreate}'', variables = JObj [],
              subscriptionState = PENDING, subscriptionReadyCallback = None,
              subscriptionFailedCallback = None, startAckTimeoutId = Some 1\<rparr>
   \<and> signals (observers
        (handleIncomingSubscriptionMessage pending0
           \<lparr>msg_id = Some ''s1'', msg_payload = Some (JObj [(''data'', JNull)]),
            msg_type = Some ''data''\<rparr>) 7) = []
   \<and> truthy (get_prop (Some (JObj [(''data'', JObj [])])) ''data'')
   \<and> map_get (subscriptionObserverMap waiting0) ''s1'' =
        Some \<lparr>observer = 7, query = ''{onCreate}'', variables = JObj [],
              subscriptionState = PENDING, subscriptionReadyCallback = Some 1,
              subscriptionFailedCallback = Some 1, startAckTimeoutId = None\<rparr>
   \<and> signals (observers
        (handleIncomingSubscriptionMessage waiting0
           \<lparr>msg_id = Some ''s1'', msg_payload = Some (JObj [(''data'', JObj [])]),
            msg_type = Some ''data''\<rparr>) 7) = []"
  by (simp add: pending0_eq waiting0_eq handleIncomingSubscriptionMessage_def map_get_def
        obs_next_def Let_def)

subsection \<open>C10: subscribe without options or endpoint\<close>

text \<open>
  C10 (as amended). For every subscribe call without options, or whose options have no
  endpoint (or an empty one), the consumer receives exactly one error, whose list has
  the single entry "Subscribe only available for AWS AppSync endpoint", and nothing
  after it: the error closes the observer, so the completion sent next is dropped. No
  teardown is returned or called; the registry, the socket, the connection status, the
  waiters and the timers are as they were.
\<close>

theorem subscribe_without_endpoint:
  "(case options of
      None \<Rightarrow> True
    | Some opts \<Rightarrow> appSyncGraphqlEndpoint opts = None \<or> appSyncGraphqlEndpoint opts = Some []) \<Longrightarrow>
   subscribe s uuid topics options ob =
     (None,
      s\<lparr>observers := (observers s)
           (ob := \<lparr>closed = True,
                   signals =
                     [Error [PlainText ''Subscribe only available for AWS AppSync endpoint'']]\<rparr>),
         teardown := (teardown s)(ob := None)\<rparr>)
   \<and> subscriptionObserverMap (snd (subscribe s uuid topics options ob)) = subscriptionObserverMap s
   \<and> awsRealTimeSocket (snd (subscribe s uuid topics options ob)) = awsRealTimeSocket s
   \<and> socketStatus (snd (subscribe s uuid topics options ob)) = socketStatus s
   \<and> promiseArray (snd (subscribe s uuid topics options ob)) = promiseArray s
   \<and> timers (snd (subscribe s uuid topics options ob)) = timers s
   \<and> teardownCalls (snd (subscribe s uuid topics options ob)) = teardownCalls s"
  by (auto simp: subscribe_def obs_error_def obs_complete_def call_teardown_def
        split: option.splits)

theorem subscribe_without_endpoint_witness:
  "signals (observers (snd (subscribe provider0 ''s1'' [] None 7)) 7) =
     [Error [PlainText ''Subscribe only available for AWS AppSync endpoint'']]
   \<and> subscriptionObserverMap (snd (subscribe provider0 ''s1'' [] None 7)) = []
   \<and> awsRealTimeSocket (snd (subscribe provider0 ''s1'' [] None 7)) = None
   \<and> appSyncGraphqlEndpoint (options0\<lparr>appSyncGraphqlEndpoint := None\<rparr>) = None
   \<and> signals (observers (snd (subscribe provider0 ''s1'' []
        (Some (options0\<lparr>appSyncGraphqlEndpoint := None\<rparr>)) 7)) 7) =
     [Error [PlainText ''Subscribe only available for AWS AppSync endpoint'']]
   \<and> fst (subscribe provider0 ''s1'' [] (Some (options0\<lparr>appSyncGraphqlEndpoint := None\<rparr>)) 7) = None"
  using subscribe_without_endpoint
          [where options = None and s = provider0 and uuid = "''s1''" and topics = "[]" and ob = 7]
        subscribe_without_endpoint
          [where options = "Some (options0\<lparr>appSyncGraphqlEndpoint := None\<rparr>)" and s = provider0
             and uuid = "''s1''" and topics = "[]" and ob = 7]
  by (simp add: provider0_def)

text \<open>
  The claim as stated fails: for a subscribe call without options on the new provider,
  what the consumer receives is the error alone; no completion signal follows it.
\<close>

theorem subscribe_without_endpoint_counterexample:
  "fst (subscribe provider0 ''s1'' [] None 7) = None
   \<and> observers (snd (subscribe provider0 ''s1'' [] None 7)) 7 =
       \<lparr>closed = True,
        signals = [Error [PlainText ''Subscribe only available for AWS AppSync endpoint'']]\<rparr>"
  by (simp add: subscribe_def provider0_def obs_error_def obs_complete_def call_teardown_def)

end
